theory Spec2Isabelle
  imports Complex_Main "HOL-Library.Log_Nat"
begin

section \<open>JavaScript numbers\<close>

text \<open>
  The services compute with JavaScript numbers (\<^verbatim>\<open>newProfit * 0.30\<close>,
  \<^verbatim>\<open>userTotalShare / totalUserTokens\<close>), which are IEEE-754 binary64 values.
  A finite number is the rational it denotes; every operation computes the exact
  rational result and rounds it to the nearest binary64 value, ties to even, with
  gradual underflow below \<open>2 powi (- 1022)\<close> and overflow to an infinity from
  \<open>2 powi 1024\<close> on. The sign of a zero is not represented: no operation below can
  observe it (the only divisor is a sum that starts at \<^verbatim>\<open>+0\<close>, which is never
  \<^verbatim>\<open>-0\<close>).
\<close>

datatype number = Fin rat | PosInf | NegInf | NaN

text \<open>The binary exponent of a positive rational: \<open>2 powi e \<le> x < 2 powi (e + 1)\<close>.\<close>

definition ilog2 :: "rat \<Rightarrow> int" where
  "ilog2 x =
     (let d = bitlen (fst (quotient_of x)) - bitlen (snd (quotient_of x))
      in if 2 powi d \<le> x then d else d - 1)"

definition round_half_even :: "rat \<Rightarrow> int" where
  "round_half_even r =
     (let f = \<lfloor>r\<rfloor>; d = r - of_int f
      in if d < 1 / 2 then f
         else if 1 / 2 < d then f + 1
         else if even f then f else f + 1)"

definition round_to_double :: "rat \<Rightarrow> number" where
  "round_to_double x =
     (if x = 0 then Fin 0
      else let e = max (ilog2 \<bar>x\<bar>) (- 1022);
               q = 2 powi (e - 52);
               y = of_int (round_half_even (x / q)) * q
           in if 2 powi 1024 \<le> \<bar>y\<bar> then (if 0 < x then PosInf else NegInf)
              else Fin y)"

text \<open>\<^verbatim>\<open>a * b\<close>\<close>

fun js_mul :: "number \<Rightarrow> number \<Rightarrow> number" where
  "js_mul (Fin a) (Fin b) = round_to_double (a * b)"
| "js_mul NaN _ = NaN"
| "js_mul _ NaN = NaN"
| "js_mul (Fin a) PosInf = (if a = 0 then NaN else if 0 < a then PosInf else NegInf)"
| "js_mul (Fin a) NegInf = (if a = 0 then NaN else if 0 < a then NegInf else PosInf)"
| "js_mul PosInf (Fin b) = (if b = 0 then NaN else if 0 < b then PosInf else NegInf)"
| "js_mul NegInf (Fin b) = (if b = 0 then NaN else if 0 < b then NegInf else PosInf)"
| "js_mul PosInf PosInf = PosInf"
| "js_mul PosInf NegInf = NegInf"
| "js_mul NegInf PosInf = NegInf"
| "js_mul NegInf NegInf = PosInf"

text \<open>\<^verbatim>\<open>a / b\<close>; a zero divisor is \<^verbatim>\<open>+0\<close>.\<close>

fun js_div :: "number \<Rightarrow> number \<Rightarrow> number" where
  "js_div (Fin a) (Fin b) =
     (if b = 0 then (if a = 0 then NaN else if 0 < a then PosInf else NegInf)
      else round_to_double (a / b))"
| "js_div NaN _ = NaN"
| "js_div _ NaN = NaN"
| "js_div (Fin a) _ = Fin 0"
| "js_div PosInf (Fin b) = (if 0 \<le> b then PosInf else NegInf)"
| "js_div NegInf (Fin b) = (if 0 \<le> b then NegInf else PosInf)"
| "js_div _ _ = NaN"

text \<open>\<^verbatim>\<open>a + b\<close>\<close>

fun js_add :: "number \<Rightarrow> number \<Rightarrow> number" where
  "js_add (Fin a) (Fin b) = round_to_double (a + b)"
| "js_add NaN _ = NaN"
| "js_add _ NaN = NaN"
| "js_add PosInf NegInf = NaN"
| "js_add NegInf PosInf = NaN"
| "js_add PosInf _ = PosInf"
| "js_add NegInf _ = NegInf"
| "js_add (Fin a) b = b"

text \<open>\<^verbatim>\<open>a <= b\<close> and \<^verbatim>\<open>!a\<close>\<close>

fun js_le :: "number \<Rightarrow> number \<Rightarrow> bool" where
  "js_le (Fin a) (Fin b) = (a \<le> b)"
| "js_le NaN _ = False"
| "js_le _ NaN = False"
| "js_le NegInf _ = True"
| "js_le _ PosInf = True"
| "js_le _ _ = False"


text \<open>\<^verbatim>\<open>Math.floor\<close>: the floor of a binary64 value is a binary64 value.\<close>

fun Math_floor :: "number \<Rightarrow> number" where
  "Math_floor (Fin a) = Fin (of_int \<lfloor>a\<rfloor>)"
| "Math_floor x = x"

text \<open>An integer column read from the store arrives as a JavaScript number.\<close>

definition number_of_int :: "int \<Rightarrow> number" where
  "number_of_int i = round_to_double (of_int i)"

text \<open>The literals \<^verbatim>\<open>0.30\<close> and \<^verbatim>\<open>0.70\<close>.\<close>

definition lit_0_30 :: number where
  "lit_0_30 = round_to_double (3 / 10)"

definition lit_0_70 :: number where
  "lit_0_70 = round_to_double (7 / 10)"

text \<open>Template literals print integers in decimal.\<close>

definition digit_char :: "nat \<Rightarrow> char" where
  "digit_char d = ''0123456789'' ! d"

function decimal_digits :: "nat \<Rightarrow> string \<Rightarrow> string" where
  "decimal_digits n acc =
     (if n div 10 = 0 then digit_char (n mod 10) # acc
      else decimal_digits (n div 10) (digit_char (n mod 10) # acc))"
  by pat_completeness auto
termination
  by (relation "measure fst") auto

definition string_of_int :: "int \<Rightarrow> string" where
  "string_of_int i =
     (if 0 \<le> i then decimal_digits (nat i) [] else CHR ''-'' # decimal_digits (nat (- i)) [])"

section \<open>What the store driver delivers\<close>

text \<open>
  The pool and its options (\<^verbatim>\<open>config/database\<close>) are not part of the sources. The
  driver, mysql2, hands the value of a DECIMAL expression such as \<^verbatim>\<open>SUM(amount)\<close> to
  the program as a string, and as a number only when the pool sets
  \<^verbatim>\<open>decimalNumbers\<close>; which of the two is a parameter of the model.
\<close>

datatype decimal_delivery = DecimalString | DecimalNumber

datatype jsval = JNum number | JStr string

fun deliver :: "decimal_delivery \<Rightarrow> int \<Rightarrow> jsval" where
  "deliver DecimalString i = JStr (string_of_int i)"
| "deliver DecimalNumber i = JNum (number_of_int i)"

text \<open>
  \<^verbatim>\<open>ToNumber\<close>, as \<^verbatim>\<open>/\<close> and \<^verbatim>\<open>*\<close> apply it to an operand. The strings that
  arise are the delivered sums and concatenations of them, made of decimal digits and
  signs: digits after an optional sign denote that integer, the empty string denotes 0,
  and any other string of these characters, such as \<^verbatim>\<open>0-5\<close>, is \<^verbatim>\<open>NaN\<close>.
\<close>

fun digits_value :: "string \<Rightarrow> nat \<Rightarrow> nat option" where
  "digits_value [] acc = Some acc"
| "digits_value (c # cs) acc =
     (if 48 \<le> (of_char c :: nat) \<and> (of_char c :: nat) \<le> 57
      then digits_value cs (10 * acc + (of_char c - 48))
      else None)"

definition unsigned_value :: "string \<Rightarrow> rat option" where
  "unsigned_value s =
     (if s = [] then None else map_option of_nat (digits_value s 0))"

fun string_to_number :: "string \<Rightarrow> number" where
  "string_to_number [] = Fin 0"
| "string_to_number (c # cs) =
     (if c = CHR ''-'' then
        (case unsigned_value cs of None \<Rightarrow> NaN | Some v \<Rightarrow> round_to_double (- v))
      else if c = CHR ''+'' then
        (case unsigned_value cs of None \<Rightarrow> NaN | Some v \<Rightarrow> round_to_double v)
      else
        (case unsigned_value (c # cs) of None \<Rightarrow> NaN | Some v \<Rightarrow> round_to_double v))"

fun to_number :: "jsval \<Rightarrow> number" where
  "to_number (JNum x) = x"
| "to_number (JStr s) = string_to_number s"

section \<open>The relational store\<close>

text \<open>
  Modelled from the spec: the table declarations are not part of the sources, so the
  column types follow section 3 of the specification and the interfaces in
  \<^verbatim>\<open>src/types\<close>: \<open>total_tokens\<close>, \<open>available_tokens\<close> and a holding's
  \<open>amount\<close> are integers, \<open>status\<close> columns are enumerations.
\<close>

datatype project_status = Active | Completed | Cancelled

datatype token_status = TokenActive | TokenSold | TokenTransferred

datatype distribution_status = Pending | DistributionCompleted

record project =
  project_id :: string
  name :: string
  description :: string
  total_tokens :: int
  available_tokens :: int
  token_price :: number
  initial_capital :: number
  admin_id :: int
  status :: project_status

record token =
  token_id :: string
  tok_project_id :: string
  tok_user_id :: int
  tok_amount :: int
  price_per_token :: number
  tok_total_value :: number
  tok_status :: token_status
  tok_blockchain_hash :: string

text \<open>Every row written by the purchase has type \<^verbatim>\<open>'purchase'\<close> and status \<^verbatim>\<open>'completed'\<close>.\<close>

record transaction_row =
  transaction_id :: string
  from_user_id :: int
  to_user_id :: int
  txn_project_id :: string
  txn_token_amount :: int
  txn_total_value :: number
  transaction_type :: string
  txn_status :: string
  txn_blockchain_hash :: string

record profit_distribution =
  dist_id :: nat
  dist_project_id :: string
  total_profit :: number
  admin_share :: number
  user_share :: number
  profit_per_token :: number
  dist_blockchain_hash :: "string option"
  dist_status :: distribution_status

record user_profit_record =
  upr_user_id :: int
  upr_project_id :: string
  upr_token_amount :: jsval
  upr_profit_amount :: number
  distribution_id :: "nat option"

record store =
  projects :: "project list"
  tokens :: "token list"
  transactions :: "transaction_row list"
  profit_distributions :: "profit_distribution list"
  user_profit_records :: "user_profit_record list"

text \<open>What a \<^verbatim>\<open>throw\<close> carries: an \<^verbatim>\<open>Error\<close> with its message, or some other value.\<close>

datatype thrown = Error string | NonError

text \<open>\<^verbatim>\<open>error instanceof Error ? error.message : 'Unknown error'\<close>\<close>

fun error_message :: "thrown \<Rightarrow> string" where
  "error_message (Error m) = m"
| "error_message NonError = ''Unknown error''"

section \<open>ProjectService\<close>

text \<open>
  \<^verbatim>\<open>createProject\<close> inserts one row with \<open>available_tokens = total_tokens\<close> and
  status \<^verbatim>\<open>'active'\<close>. The generated \<open>project_id\<close> (a time stamp and a UUID prefix) is
  an argument here.
\<close>

definition createProject ::
  "store \<Rightarrow> string \<Rightarrow> string \<Rightarrow> string \<Rightarrow> int \<Rightarrow> number \<Rightarrow> number \<Rightarrow> int \<Rightarrow> project \<times> store" where
  "createProject st new_project_id nm descr supply price capital adminId =
     (let row = \<lparr>project_id = new_project_id, name = nm, description = descr,
                 total_tokens = supply, available_tokens = supply, token_price = price,
                 initial_capital = capital, admin_id = adminId, status = Active\<rparr>
      in (row, st\<lparr>projects := projects st @ [row]\<rparr>))"

text \<open>
  The two queries of \<^verbatim>\<open>isProjectReadyForDistribution\<close> go through \<^verbatim>\<open>pool.execute\<close>,
  which may throw. A pool is the pair of their behaviours.
\<close>

record pool =
  select_project :: "string \<Rightarrow> thrown + project list"
  count_holders :: "string \<Rightarrow> thrown + int"

text \<open>
  \<^verbatim>\<open>SELECT ... FROM projects WHERE project_id = ?\<close> and
  \<^verbatim>\<open>SELECT COUNT(DISTINCT user_id) ... WHERE project_id = ? AND status = "active"\<close>
  on a store that answers.
\<close>

definition project_rows :: "store \<Rightarrow> string \<Rightarrow> project list" where
  "project_rows st pid = filter (\<lambda>p. project_id p = pid) (projects st)"

definition active_tokens :: "store \<Rightarrow> string \<Rightarrow> token list" where
  "active_tokens st pid =
     filter (\<lambda>t. tok_project_id t = pid \<and> tok_status t = TokenActive) (tokens st)"

definition holder_count :: "store \<Rightarrow> string \<Rightarrow> int" where
  "holder_count st pid = int (length (remdups (map tok_user_id (active_tokens st pid))))"

definition pool_of :: "store \<Rightarrow> pool" where
  "pool_of st = \<lparr>select_project = (\<lambda>pid. Inr (project_rows st pid)),
                count_holders = (\<lambda>pid. Inr (holder_count st pid))\<rparr>"

record readiness =
  ready :: bool
  reason :: string
  projectExists :: bool
  tokensSold :: int
  totalTokens :: int
  availableTokens :: int
  tokenHolderCount :: "int option"

definition not_ready :: "string \<Rightarrow> project \<Rightarrow> readiness" where
  "not_ready why p =
     \<lparr>ready = False, reason = why, projectExists = True,
      tokensSold = total_tokens p - available_tokens p,
      totalTokens = total_tokens p, availableTokens = available_tokens p,
      tokenHolderCount = None\<rparr>"

text \<open>The body of the \<^verbatim>\<open>try\<close> block: \<open>Inl\<close> is a throw that reaches the \<^verbatim>\<open>catch\<close>.\<close>

definition readiness_try :: "pool \<Rightarrow> string \<Rightarrow> thrown + readiness" where
  "readiness_try pl projectId =
     (case select_project pl projectId of
        Inl e \<Rightarrow> Inl e
      | Inr [] \<Rightarrow>
          Inr \<lparr>ready = False, reason = ''Project not found'', projectExists = False,
               tokensSold = 0, totalTokens = 0, availableTokens = 0,
               tokenHolderCount = None\<rparr>
      | Inr (p # _) \<Rightarrow>
          if status p = Completed then Inr (not_ready ''Project is already completed'' p)
          else if status p = Cancelled then Inr (not_ready ''Project is cancelled'' p)
          else if 0 < available_tokens p then
            Inr (not_ready
              (''Cannot distribute profit until all tokens are sold. Currently ''
                @ string_of_int (total_tokens p - available_tokens p) @ ''/''
                @ string_of_int (total_tokens p) @ '' tokens sold. Remaining: ''
                @ string_of_int (available_tokens p) @ '' tokens.'') p)
          else
            (case count_holders pl projectId of
               Inl e \<Rightarrow> Inl e
             | Inr n \<Rightarrow>
                 if n = 0 then
                   Inr (not_ready ''No active token holders found for this project'' p)
                 else
                   Inr \<lparr>ready = True, reason = ''Project is ready for profit distribution'',
                        projectExists = True,
                        tokensSold = total_tokens p - available_tokens p,
                        totalTokens = total_tokens p,
                        availableTokens = available_tokens p,
                        tokenHolderCount = Some n\<rparr>))"

definition isProjectReadyForDistribution :: "pool \<Rightarrow> string \<Rightarrow> readiness" where
  "isProjectReadyForDistribution pl projectId =
     (case readiness_try pl projectId of
        Inr r \<Rightarrow> r
      | Inl e \<Rightarrow>
          \<lparr>ready = False, reason = ''Database error: '' @ error_message e,
           projectExists = False, tokensSold = 0, totalTokens = 0, availableTokens = 0,
           tokenHolderCount = None\<rparr>)"

text \<open>The readiness check against a store whose queries answer.\<close>

definition checkReadiness :: "store \<Rightarrow> string \<Rightarrow> readiness" where
  "checkReadiness st pid = isProjectReadyForDistribution (pool_of st) pid"

section \<open>BlockchainService\<close>

text \<open>
  The contract object is built by ethers from the ABI in the source, which declares
  \<^verbatim>\<open>createToken(string,string,int256)\<close> and
  \<^verbatim>\<open>addDividenProfit(string,int256,int256,int256,int256)\<close>. Before anything is sent,
  ethers turns each JavaScript number passed for an \<^verbatim>\<open>int256\<close> parameter into a big
  integer, and throws unless the number is an integer between \<open>- (2 ^ 53 - 1)\<close> and
  \<open>2 ^ 53 - 1\<close>.
\<close>

fun int256_number :: "number \<Rightarrow> bool" where
  "int256_number (Fin x) = (x = of_int \<lfloor>x\<rfloor> \<and> \<bar>x\<bar> \<le> 9007199254740991)"
| "int256_number x = False"

text \<open>
  The deployed contract and the library's wording are outside the repository: a
  transaction either throws or, after \<^verbatim>\<open>tx.wait()\<close>, yields its hash, and
  \<open>invalid_argument\<close> is the message of the error for a number that is no
  \<^verbatim>\<open>int256\<close> value. Both adapter methods rethrow whatever is thrown.
\<close>

record contract =
  contract_createToken :: "string \<Rightarrow> string \<Rightarrow> number \<Rightarrow> thrown + string"
  contract_addDividenProfit ::
    "string \<Rightarrow> number \<Rightarrow> number \<Rightarrow> number \<Rightarrow> number \<Rightarrow> thrown + string"
  invalid_argument :: "number \<Rightarrow> string"

definition createToken :: "contract \<Rightarrow> string \<Rightarrow> string \<Rightarrow> int \<Rightarrow> thrown + string" where
  "createToken c tokenId projectId amount =
     (case find (\<lambda>x. \<not> int256_number x) [number_of_int amount] of
        Some x \<Rightarrow> Inl (Error (invalid_argument c x))
      | None \<Rightarrow>
          (case contract_createToken c tokenId projectId (number_of_int amount) of
             Inl e \<Rightarrow> Inl e
           | Inr hash \<Rightarrow> Inr hash))"

definition addDividenProfit ::
  "contract \<Rightarrow> string \<Rightarrow> number \<Rightarrow> number \<Rightarrow> number \<Rightarrow> number \<Rightarrow> thrown + string" where
  "addDividenProfit c projectId totalProfit adminShare userShare profitPerToken =
     (let scaled = Math_floor (js_mul profitPerToken (Fin 100000000)) in
      case find (\<lambda>x. \<not> int256_number x) [totalProfit, adminShare, userShare, scaled] of
        Some x \<Rightarrow> Inl (Error (invalid_argument c x))
      | None \<Rightarrow>
          (case contract_addDividenProfit c projectId totalProfit adminShare userShare scaled of
             Inl e \<Rightarrow> Inl e
           | Inr hash \<Rightarrow> Inr hash))"

section \<open>TokenController.purchaseTokens\<close>

record 'a response =
  status_code :: nat
  message :: string
  body :: 'a

record purchased =
  purchased_token_id :: string
  purchased_project_id :: string
  purchased_amount :: int
  purchased_total_value :: number
  purchased_blockchain_hash :: string

text \<open>
  A request: the authenticated user, the two body fields (absent is \<open>None\<close>), and the
  two identifiers the handler generates from the clock and a UUID.
\<close>

record purchase_request =
  req_user_id :: int
  req_project_id :: "string option"
  req_amount :: "int option"
  new_token_id :: string
  new_transaction_id :: string

definition invalid_purchase :: "purchased option response" where
  "invalid_purchase =
     \<lparr>status_code = 400, message = ''Invalid project_id or amount'', body = None\<rparr>"

text \<open>
  The \<^verbatim>\<open>try\<close> block, on the working copy of the store that the open transaction
  sees. \<open>Inl\<close> is a throw, with the working copy at that point; \<open>Inr\<close> is a response,
  with the working copy it leaves (an early \<^verbatim>\<open>return\<close> has written nothing). The
  statements sent to the store are taken to succeed; the call that can throw is the one
  to the ledger. The body's \<open>amount\<close> is an integer, as the data model has it.
\<close>

definition purchase_try ::
  "contract \<Rightarrow> store \<Rightarrow> purchase_request \<Rightarrow>
     thrown \<times> store + purchased option response \<times> store" where
  "purchase_try c st req =
     (case req_project_id req of
        None \<Rightarrow> Inr (invalid_purchase, st)
      | Some pid \<Rightarrow>
     (case req_amount req of
        None \<Rightarrow> Inr (invalid_purchase, st)
      | Some amount \<Rightarrow>
          if pid = [] \<or> amount = 0 \<or> amount \<le> 0 then Inr (invalid_purchase, st)
          else
            (case filter (\<lambda>p. project_id p = pid \<and> status p = Active) (projects st) of
               [] \<Rightarrow>
                 Inr (\<lparr>status_code = 404, message = ''Project not found or not active'',
                       body = None\<rparr>, st)
             | proj # _ \<Rightarrow>
                 if available_tokens proj < amount then
                   Inr (\<lparr>status_code = 400,
                         message = ''Insufficient tokens available. Only ''
                           @ string_of_int (available_tokens proj) @ '' tokens left.'',
                         body = None\<rparr>, st)
                 else
                   let total_value = js_mul (number_of_int amount) (token_price proj) in
                   (case createToken c (new_token_id req) pid amount of
                      Inl e \<Rightarrow> Inl (e, st)
                    | Inr hash \<Rightarrow>
                        let st1 = st\<lparr>tokens := tokens st @
                                   [\<lparr>token_id = new_token_id req, tok_project_id = pid,
                                     tok_user_id = req_user_id req, tok_amount = amount,
                                     price_per_token = token_price proj,
                                     tok_total_value = total_value,
                                     tok_status = TokenActive,
                                     tok_blockchain_hash = hash\<rparr>]\<rparr>;
                            st2 = st1\<lparr>projects :=
                                   map (\<lambda>p. if project_id p = pid
                                            then p\<lparr>available_tokens := available_tokens p - amount\<rparr>
                                            else p) (projects st1)\<rparr>;
                            st3 = st2\<lparr>transactions := transactions st2 @
                                   [\<lparr>transaction_id = new_transaction_id req,
                                     from_user_id = admin_id proj,
                                     to_user_id = req_user_id req, txn_project_id = pid,
                                     txn_token_amount = amount,
                                     txn_total_value = total_value,
                                     transaction_type = ''purchase'',
                                     txn_status = ''completed'',
                                     txn_blockchain_hash = hash\<rparr>]\<rparr>
                        in Inr (\<lparr>status_code = 201,
                                 message = ''Tokens purchased successfully'',
                                 body = Some \<lparr>purchased_token_id = new_token_id req,
                                              purchased_project_id = pid,
                                              purchased_amount = amount,
                                              purchased_total_value = total_value,
                                              purchased_blockchain_hash = hash\<rparr>\<rparr>,
                                st3)))))"

text \<open>
  The handler: a throw is caught, the transaction is rolled back (the store is the one
  before the call) and the response is 500; otherwise the store is what the block left.
\<close>

definition purchaseTokens ::
  "contract \<Rightarrow> store \<Rightarrow> purchase_request \<Rightarrow> purchased option response \<times> store" where
  "purchaseTokens c st req =
     (case purchase_try c st req of
        Inl (e, working) \<Rightarrow>
          (\<lparr>status_code = 500, message = ''Error purchasing tokens'', body = None\<rparr>, st)
      | Inr (res, working) \<Rightarrow> (res, working))"

text \<open>Purchases one after the other, each on the store the previous one left.\<close>

fun purchase_all :: "contract \<Rightarrow> store \<Rightarrow> purchase_request list \<Rightarrow> store" where
  "purchase_all c st [] = st"
| "purchase_all c st (req # reqs) = purchase_all c (snd (purchaseTokens c st req)) reqs"

section \<open>ProfitService.distributeProfit\<close>

text \<open>
  \<^verbatim>\<open>SELECT user_id, SUM(amount) as total_tokens FROM tokens WHERE project_id = ? AND
  status = "active" GROUP BY user_id\<close>: one pair per holder with the exact sum. SQL leaves
  the order of the groups open; here they come in the order in which the holders first
  occur in the table. Each sum reaches the method as the driver delivers it,
  \<open>deliver dm\<close> of the sum.
\<close>

fun first_occurrences :: "'a list \<Rightarrow> 'a list" where
  "first_occurrences [] = []"
| "first_occurrences (x # xs) = x # first_occurrences (filter (\<lambda>y. y \<noteq> x) xs)"

definition tokenHolders_query :: "store \<Rightarrow> string \<Rightarrow> (int \<times> int) list" where
  "tokenHolders_query st pid =
     map (\<lambda>u. (u, sum_list (map tok_amount
                   (filter (\<lambda>t. tok_user_id t = u) (active_tokens st pid)))))
         (first_occurrences (map tok_user_id (active_tokens st pid)))"

text \<open>The auto-increment key of the next row, and the key of a project's latest row.\<close>

definition next_dist_id :: "store \<Rightarrow> nat" where
  "next_dist_id st = Suc (foldr max (map dist_id (profit_distributions st)) 0)"

definition latest_dist_id :: "store \<Rightarrow> string \<Rightarrow> nat option" where
  "latest_dist_id st pid =
     (case filter (\<lambda>d. dist_project_id d = pid) (profit_distributions st) of
        [] \<Rightarrow> None
      | d # ds \<Rightarrow> Some (foldr max (map dist_id ds) (dist_id d)))"

record user_profit =
  up_user_id :: int
  up_token_amount :: jsval
  up_profit_amount :: number

record distribution_data =
  projectId :: string
  initialCapital :: number
  totalRevenue :: number
  newProfit :: number
  adminShare :: number
  userTotalShare :: number
  profitPerToken :: number
  totalUserTokens :: jsval
  userProfits :: "user_profit list"
  blockchainHash :: string
  projectStatus :: project_status

text \<open>
  The \<^verbatim>\<open>for\<close> loop over the holders: per holder
  \<^verbatim>\<open>userProfit = holder.total_tokens * profitPerToken\<close>, one row inserted into
  \<^verbatim>\<open>user_profit_records\<close>, whose \<open>distribution_id\<close> is the key of the project's
  latest distribution, and one entry pushed to \<^verbatim>\<open>userProfits\<close>.
\<close>

definition credit_row ::
  "decimal_delivery \<Rightarrow> string \<Rightarrow> number \<Rightarrow> nat option \<Rightarrow> int \<times> int \<Rightarrow> user_profit_record" where
  "credit_row dm pid ppt did holder =
     \<lparr>upr_user_id = fst holder, upr_project_id = pid,
      upr_token_amount = deliver dm (snd holder),
      upr_profit_amount = js_mul (to_number (deliver dm (snd holder))) ppt,
      distribution_id = did\<rparr>"

definition credit_entry :: "decimal_delivery \<Rightarrow> number \<Rightarrow> int \<times> int \<Rightarrow> user_profit" where
  "credit_entry dm ppt holder =
     \<lparr>up_user_id = fst holder, up_token_amount = deliver dm (snd holder),
      up_profit_amount = js_mul (to_number (deliver dm (snd holder))) ppt\<rparr>"

fun credit_holders ::
  "decimal_delivery \<Rightarrow> string \<Rightarrow> number \<Rightarrow> (int \<times> int) list \<Rightarrow> store \<Rightarrow>
     user_profit list \<Rightarrow> store \<times> user_profit list" where
  "credit_holders dm pid ppt [] st acc = (st, acc)"
| "credit_holders dm pid ppt (holder # holders) st acc =
     credit_holders dm pid ppt holders
       (st\<lparr>user_profit_records := user_profit_records st @
             [credit_row dm pid ppt (latest_dist_id st pid) holder]\<rparr>)
       (acc @ [credit_entry dm ppt holder])"

text \<open>
  The quantities the method computes before it writes: \<^verbatim>\<open>adminShare\<close>,
  \<^verbatim>\<open>userTotalShare\<close>, \<^verbatim>\<open>totalUserTokens\<close> and \<^verbatim>\<open>profitPerToken\<close>.

  \<^verbatim>\<open>totalUserTokens\<close> is \<^verbatim>\<open>tokenHolders.reduce((sum, holder) => sum +
  holder.total_tokens, 0)\<close>, and \<^verbatim>\<open>+\<close> is applied to the sums as delivered. On numbers it
  adds. On strings it concatenates: the first \<^verbatim>\<open>+\<close> turns the number 0 into the string
  \<^verbatim>\<open>0\<close> and appends the first sum, and every later one appends the next sum, so that
  sums of 60 and 40 give \<^verbatim>\<open>06040\<close>. \<^verbatim>\<open>profitPerToken\<close> divides by
  \<^verbatim>\<open>ToNumber\<close> of the result.
\<close>

definition adminShare_of :: "number \<Rightarrow> number" where
  "adminShare_of profit = js_mul profit lit_0_30"

definition userTotalShare_of :: "number \<Rightarrow> number" where
  "userTotalShare_of profit = js_mul profit lit_0_70"

fun totalUserTokens_of :: "decimal_delivery \<Rightarrow> (int \<times> int) list \<Rightarrow> jsval" where
  "totalUserTokens_of DecimalNumber holders =
     JNum (foldl (\<lambda>sum holder. js_add sum (number_of_int (snd holder))) (Fin 0) holders)"
| "totalUserTokens_of DecimalString [] = JNum (Fin 0)"
| "totalUserTokens_of DecimalString (holder # holders) =
     JStr (foldl (\<lambda>sum holder. sum @ string_of_int (snd holder)) ''0'' (holder # holders))"

definition profitPerToken_of :: "decimal_delivery \<Rightarrow> number \<Rightarrow> (int \<times> int) list \<Rightarrow> number" where
  "profitPerToken_of dm profit holders =
     js_div (userTotalShare_of profit) (to_number (totalUserTokens_of dm holders))"

text \<open>
  The \<^verbatim>\<open>try\<close> block on the working copy of the store. \<open>Inl\<close> is a throw, with the
  working copy at that point. The statements sent to the store are taken to succeed;
  the throws are the method's own and the ledger adapter's.
\<close>

definition distributeProfit_try ::
  "contract \<Rightarrow> decimal_delivery \<Rightarrow> store \<Rightarrow> string \<Rightarrow> number \<Rightarrow> number \<Rightarrow> number \<Rightarrow> int \<Rightarrow>
     thrown \<times> store + distribution_data \<times> store" where
  "distributeProfit_try c dm st pid initCapital revenue profit adminId =
     (case project_rows st pid of
        [] \<Rightarrow> Inl (Error ''Project not found'', st)
      | p # _ \<Rightarrow>
          if status p = Completed then
            Inl (Error ''Cannot distribute profit for completed project'', st)
          else if 0 < available_tokens p then
            Inl (Error (''Cannot distribute profit until all tokens are sold. Current: ''
                   @ string_of_int (total_tokens p - available_tokens p) @ ''/''
                   @ string_of_int (total_tokens p) @ '' tokens sold. Remaining: ''
                   @ string_of_int (available_tokens p) @ '' tokens.''), st)
          else
            let share_admin = adminShare_of profit;
                share_users = userTotalShare_of profit;
                holders = tokenHolders_query st pid
            in if holders = [] then
                 Inl (Error ''No token holders found for this project'', st)
               else
                 let total_user_tokens = totalUserTokens_of dm holders;
                     ppt = profitPerToken_of dm profit holders;
                     st1 = st\<lparr>profit_distributions := profit_distributions st @
                             [\<lparr>dist_id = next_dist_id st, dist_project_id = pid,
                               total_profit = profit, admin_share = share_admin,
                               user_share = share_users, profit_per_token = ppt,
                               dist_blockchain_hash = None, dist_status = Pending\<rparr>]\<rparr>
                 in (case addDividenProfit c pid profit share_admin share_users ppt of
                       Inl e \<Rightarrow> Inl (e, st1)
                     | Inr hash \<Rightarrow>
                         let st2 = st1\<lparr>profit_distributions :=
                                     map (\<lambda>d. if dist_project_id d = pid
                                                 \<and> Some (dist_id d) = latest_dist_id st1 pid
                                              then d\<lparr>dist_blockchain_hash := Some hash,
                                                     dist_status := DistributionCompleted\<rparr>
                                              else d) (profit_distributions st1)\<rparr>;
                             (st3, profits) = credit_holders dm pid ppt holders st2 [];
                             st4 = st3\<lparr>projects :=
                                     map (\<lambda>q. if project_id q = pid
                                              then q\<lparr>status := Completed\<rparr> else q)
                                         (projects st3)\<rparr>
                         in Inr (\<lparr>projectId = pid, initialCapital = initCapital,
                                  totalRevenue = revenue, newProfit = profit,
                                  adminShare = share_admin, userTotalShare = share_users,
                                  profitPerToken = ppt,
                                  totalUserTokens = total_user_tokens,
                                  userProfits = profits, blockchainHash = hash,
                                  projectStatus = Completed\<rparr>, st4)))"

text \<open>
  \<^verbatim>\<open>catch (error) { await connection.rollback(); throw error; }\<close>: on a throw the
  working copy is dropped and the store is the one before the call; otherwise the
  working copy is committed.
\<close>

definition distributeProfit ::
  "contract \<Rightarrow> decimal_delivery \<Rightarrow> store \<Rightarrow> string \<Rightarrow> number \<Rightarrow> number \<Rightarrow> number \<Rightarrow> int \<Rightarrow>
     (thrown + distribution_data) \<times> store" where
  "distributeProfit c dm st pid initCapital revenue profit adminId =
     (case distributeProfit_try c dm st pid initCapital revenue profit adminId of
        Inl (e, working) \<Rightarrow> (Inl e, st)
      | Inr (d, working) \<Rightarrow> (Inr d, working))"

section \<open>ProfitController.distributeProfit\<close>






section \<open>The supply invariant\<close>

text \<open>
  The tokens of a project that are held, and the invariant of section 3 of the
  specification: no row of the project has a negative \<open>available_tokens\<close>, and
  \<open>available_tokens\<close> is \<open>total_tokens\<close> minus the amounts of the active holdings.
\<close>

definition sold_amount :: "store \<Rightarrow> string \<Rightarrow> int" where
  "sold_amount st pid = sum_list (map tok_amount (active_tokens st pid))"

definition supply_invariant :: "store \<Rightarrow> string \<Rightarrow> bool" where
  "supply_invariant st pid \<longleftrightarrow>
     (\<forall>p \<in> set (project_rows st pid).
        0 \<le> available_tokens p \<and> available_tokens p = total_tokens p - sold_amount st pid)"

section \<open>Scenarios\<close>

text \<open>
  Concrete stores, contracts and requests on which the theorems below are exercised: a
  sold-out project with two holders of 60 and 40 tokens, the same project cancelled, a
  project with 3 of its 10 tokens left, and a sold-out project of 100000000 tokens with
  one holder.
\<close>

definition sold_out_project :: project where
  "sold_out_project =
     \<lparr>project_id = ''P1'', name = ''Warehouse'', description = ''Cold storage'',
      total_tokens = 100, available_tokens = 0, token_price = Fin 10,
      initial_capital = Fin 1000, admin_id = 1, status = Active\<rparr>"

definition holding :: "string \<Rightarrow> string \<Rightarrow> int \<Rightarrow> int \<Rightarrow> token" where
  "holding tid pid u n =
     \<lparr>token_id = tid, tok_project_id = pid, tok_user_id = u, tok_amount = n,
      price_per_token = Fin 10, tok_total_value = Fin (of_int (10 * n)),
      tok_status = TokenActive, tok_blockchain_hash = ''0xa1''\<rparr>"

definition sold_out_store :: store where
  "sold_out_store =
     \<lparr>projects = [sold_out_project],
      tokens = [holding ''T1'' ''P1'' 7 60, holding ''T2'' ''P1'' 8 40],
      transactions = [], profit_distributions = [], user_profit_records = []\<rparr>"

definition cancelled_project :: project where
  "cancelled_project = sold_out_project\<lparr>status := Cancelled\<rparr>"

definition cancelled_store :: store where
  "cancelled_store = sold_out_store\<lparr>projects := [cancelled_project]\<rparr>"

definition open_project :: project where
  "open_project =
     \<lparr>project_id = ''P2'', name = ''Orchard'', description = ''Apples'',
      total_tokens = 10, available_tokens = 3, token_price = Fin 10,
      initial_capital = Fin 100, admin_id = 1, status = Active\<rparr>"

definition open_store :: store where
  "open_store =
     \<lparr>projects = [open_project], tokens = [holding ''T3'' ''P2'' 7 7],
      transactions = [], profit_distributions = [], user_profit_records = []\<rparr>"

definition empty_store :: store where
  "empty_store =
     \<lparr>projects = [], tokens = [], transactions = [], profit_distributions = [],
      user_profit_records = []\<rparr>"

definition accepting_contract :: contract where
  "accepting_contract =
     \<lparr>contract_createToken = (\<lambda>tokenId projectId amount. Inr ''0xc0ffee''),
      contract_addDividenProfit = (\<lambda>projectId total admin users ppt. Inr ''0xd1f1de''),
      invalid_argument = (\<lambda>x. ''invalid argument'')\<rparr>"

definition failing_contract :: contract where
  "failing_contract =
     \<lparr>contract_createToken = (\<lambda>tokenId projectId amount. Inl (Error ''ledger unreachable'')),
      contract_addDividenProfit =
        (\<lambda>projectId total admin users ppt. Inl (Error ''ledger unreachable'')),
      invalid_argument = (\<lambda>x. ''invalid argument'')\<rparr>"

definition failing_pool :: pool where
  "failing_pool =
     \<lparr>select_project = (\<lambda>pid. Inl (Error ''Connection lost'')),
      count_holders = (\<lambda>pid. Inl (Error ''Connection lost''))\<rparr>"

definition buy :: "string \<Rightarrow> int \<Rightarrow> string \<Rightarrow> string \<Rightarrow> purchase_request" where
  "buy pid n tid xid =
     \<lparr>req_user_id = 9, req_project_id = Some pid, req_amount = Some n,
      new_token_id = tid, new_transaction_id = xid\<rparr>"

definition three_purchases :: "purchase_request list" where
  "three_purchases =
     [buy ''P9'' 4 ''T10'' ''X10'', buy ''P9'' 9 ''T11'' ''X11'', buy ''P9'' 6 ''T12'' ''X12'']"


definition count_failing_pool :: pool where
  "count_failing_pool =
     \<lparr>select_project = (\<lambda>pid. Inr (project_rows sold_out_store pid)),
      count_holders = (\<lambda>pid. Inl (Error ''Connection lost''))\<rparr>"

definition large_project :: project where
  "large_project =
     \<lparr>project_id = ''P3'', name = ''Harbour'', description = ''Container terminal'',
      total_tokens = 100000000, available_tokens = 0, token_price = Fin 10,
      initial_capital = Fin 1000000000, admin_id = 1, status = Active\<rparr>"

definition large_store :: store where
  "large_store =
     \<lparr>projects = [large_project], tokens = [holding ''T4'' ''P3'' 7 100000000],
      transactions = [], profit_distributions = [], user_profit_records = []\<rparr>"

lemmas fixtures = sold_out_project_def holding_def sold_out_store_def cancelled_project_def
  cancelled_store_def open_project_def open_store_def empty_store_def accepting_contract_def
  failing_contract_def failing_pool_def buy_def

section \<open>Rounding to binary64\<close>

lemma ilog2_bounds:
  assumes "0 < x"
  shows "2 powi ilog2 x \<le> x" and "x < 2 powi (ilog2 x + 1)"
proof -
  obtain p q where pq: "quotient_of x = (p, q)" by force
  have q: "0 < q" using quotient_of_denom_pos [OF pq] .
  have x: "x = of_int p / of_int q" using quotient_of_div [OF pq] .
  have p: "0 < p"
    using assms q unfolding x by (simp add: zero_less_divide_iff)
  define a where "a = bitlen p"
  define b where "b = bitlen q"
  have a1: "1 \<le> a" and b1: "1 \<le> b"
    using p q by (simp_all add: a_def b_def bitlen_alt_def)
  have pb: "2 ^ nat (a - 1) \<le> p" "p < 2 ^ nat a"
    using bitlen_bounds [OF p] by (simp_all add: a_def)
  have qb: "2 ^ nat (b - 1) \<le> q" "q < 2 ^ nat b"
    using bitlen_bounds [OF q] by (simp_all add: b_def)
  have pl: "(2::rat) powi (a - 1) \<le> of_int p"
  proof -
    have "(of_int (2 ^ nat (a - 1)) :: rat) \<le> of_int p"
      using pb(1) by (simp only: of_int_le_iff)
    then show ?thesis using a1 by (simp add: power_int_def)
  qed
  have pu: "of_int p < (2::rat) powi a"
  proof -
    have "(of_int p :: rat) < of_int (2 ^ nat a)"
      using pb(2) by (simp only: of_int_less_iff)
    then show ?thesis using a1 by (simp add: power_int_def)
  qed
  have ql: "(2::rat) powi (b - 1) \<le> of_int q"
  proof -
    have "(of_int (2 ^ nat (b - 1)) :: rat) \<le> of_int q"
      using qb(1) by (simp only: of_int_le_iff)
    then show ?thesis using b1 by (simp add: power_int_def)
  qed
  have qu: "of_int q < (2::rat) powi b"
  proof -
    have "(of_int q :: rat) < of_int (2 ^ nat b)"
      using qb(2) by (simp only: of_int_less_iff)
    then show ?thesis using b1 by (simp add: power_int_def)
  qed
  have upper: "x < 2 powi (a - b + 1)"
  proof -
    have "of_int p / of_int q < (2::rat) powi a / 2 powi (b - 1)"
      by (rule frac_less) (use p pu ql in simp_all)
    also have "\<dots> = 2 powi (a - b + 1)"
      by (simp add: power_int_diff [symmetric] algebra_simps)
    finally show ?thesis unfolding x .
  qed
  have lower: "2 powi (a - b - 1) < x"
  proof -
    have "(2::rat) powi (a - 1) / 2 powi b < of_int p / of_int q"
      by (rule frac_less2) (use q pl qu in simp_all)
    moreover have "(2::rat) powi (a - 1) / 2 powi b = 2 powi (a - b - 1)"
      by (simp add: power_int_diff [symmetric] algebra_simps)
    ultimately show ?thesis unfolding x by simp
  qed
  have il: "ilog2 x = (if 2 powi (a - b) \<le> x then a - b else a - b - 1)"
    by (simp add: ilog2_def pq a_def b_def Let_def)
  show "2 powi ilog2 x \<le> x"
    using lower by (simp add: il)
  show "x < 2 powi (ilog2 x + 1)"
    using upper by (auto simp: il not_le)
qed

lemma powi2_less_cancel:
  assumes "(2::rat) powi m < 2 powi n"
  shows "m < n"
proof (rule ccontr)
  assume "\<not> m < n"
  then have "n \<le> m" by simp
  then have "(2::rat) powi n \<le> 2 powi m"
    by (rule power_int_increasing) simp
  with assms show False by simp
qed

lemma ilog2_unique:
  assumes "2 powi e \<le> x" and "x < 2 powi (e + 1)"
  shows "ilog2 x = e"
proof -
  have pos: "0 < x"
    using assms(1) by (rule less_le_trans [rotated]) simp
  have "(2::rat) powi ilog2 x < 2 powi (e + 1)"
    using ilog2_bounds(1) [OF pos] assms(2) by simp
  then have 1: "ilog2 x < e + 1"
    by (rule powi2_less_cancel)
  have "(2::rat) powi e < 2 powi (ilog2 x + 1)"
    using ilog2_bounds(2) [OF pos] assms(1) by simp
  then have 2: "e < ilog2 x + 1"
    by (rule powi2_less_cancel)
  from 1 2 show ?thesis by simp
qed

lemma round_half_even_error: "\<bar>of_int (round_half_even r) - r\<bar> \<le> 1 / 2"
proof -
  have "of_int \<lfloor>r\<rfloor> \<le> r" "r < of_int \<lfloor>r\<rfloor> + 1"
    by linarith+
  then show ?thesis
    by (auto simp: round_half_even_def Let_def abs_le_iff)
qed

lemma round_half_even_of_int [simp]: "round_half_even (of_int k) = k"
  by (simp add: round_half_even_def)

lemma round_half_even_le: "r \<le> of_int n \<Longrightarrow> round_half_even r \<le> n"
proof -
  assume le: "r \<le> of_int n"
  have "r < of_int \<lfloor>r\<rfloor> + 1" by linarith
  show ?thesis
  proof (cases "r = of_int n")
    case True
    then show ?thesis by simp
  next
    case False
    with le have "r < of_int n" by simp
    then have "\<lfloor>r\<rfloor> < n" by (simp add: floor_less_iff)
    then show ?thesis by (simp add: round_half_even_def Let_def)
  qed
qed

lemma round_half_even_ge: "of_int n \<le> r \<Longrightarrow> n \<le> round_half_even r"
proof -
  assume "of_int n \<le> r"
  then have "n \<le> \<lfloor>r\<rfloor>" by (simp add: le_floor_iff)
  then show ?thesis by (simp add: round_half_even_def Let_def)
qed

lemma round_to_double_normal:
  assumes lo: "2 powi e \<le> \<bar>x\<bar>" and hi: "\<bar>x\<bar> < 2 powi (e + 1)"
    and e: "- 1022 \<le> e" "e \<le> 1022"
  shows "round_to_double x =
           Fin (of_int (round_half_even (x / 2 powi (e - 52))) * 2 powi (e - 52))"
proof -
  define q :: rat where "q = 2 powi (e - 52)"
  define m where "m = round_half_even (x / q)"
  have q: "0 < q" by (simp add: q_def)
  have x0: "x \<noteq> 0"
  proof
    assume "x = 0"
    with lo have "(2::rat) powi e \<le> 0" by simp
    moreover have "(0::rat) < 2 powi e" by simp
    ultimately show False by linarith
  qed
  have il: "ilog2 \<bar>x\<bar> = e" using lo hi by (rule ilog2_unique)
  have "\<bar>x / q\<bar> = \<bar>x\<bar> / q" using q by simp
  also have "\<dots> < 2 powi (e + 1) / q"
    using hi q by (simp add: divide_strict_right_mono)
  also have "\<dots> = 2 ^ 53"
    by (simp add: q_def power_int_diff [symmetric])
  finally have b: "\<bar>x / q\<bar> < 2 ^ 53" .
  from b have "x / q < 2 ^ 53" "- (2 ^ 53) < x / q"
    by (simp_all only: abs_less_iff minus_less_iff)
  then have "x / q \<le> of_int (2 ^ 53)" "of_int (- (2 ^ 53)) \<le> x / q"
    by simp_all
  then have "m \<le> 2 ^ 53" "- (2 ^ 53) \<le> m"
    unfolding m_def by (simp_all only: round_half_even_le round_half_even_ge)
  then have "\<bar>m\<bar> \<le> 2 ^ 53" by simp
  then have "\<bar>(of_int m :: rat)\<bar> \<le> of_int (2 ^ 53)"
    by (simp only: of_int_abs [symmetric] of_int_le_iff)
  then have "\<bar>of_int m * q\<bar> \<le> 2 ^ 53 * q"
    using q by (simp add: abs_mult)
  also have "2 ^ 53 * q = 2 powi (e + 1)"
    by (simp add: q_def power_int_diff power_int_add)
  also have "\<dots> \<le> 2 powi 1023"
    by (rule power_int_increasing) (use e in simp_all)
  also have "\<dots> < (2::rat) powi 1024"
    by (rule power_int_strict_increasing) simp_all
  finally have "\<not> 2 powi 1024 \<le> \<bar>of_int m * q\<bar>" by simp
  then show ?thesis
    using x0 e by (simp add: round_to_double_def il Let_def q_def m_def max_def)
qed

lemma floor_rat_numeral_div:
  "\<lfloor>numeral a / numeral b :: rat\<rfloor> = numeral a div numeral b"
  "\<lfloor>- numeral a / numeral b :: rat\<rfloor> = - numeral a div numeral b"
  using floor_divide_of_int_eq [of "numeral a" "numeral b", where ?'a = rat]
    floor_divide_of_int_eq [of "- numeral a" "numeral b", where ?'a = rat]
  by simp_all

lemma round_to_double_int:
  assumes "\<bar>k\<bar> \<le> 2 ^ 53"
  shows "round_to_double (of_int k) = Fin (of_int k)"
proof (cases "k = 0")
  case True
  then show ?thesis by (simp add: round_to_double_def)
next
  case False
  define x :: rat where "x = of_int k"
  define e where "e = ilog2 \<bar>x\<bar>"
  have pos: "0 < \<bar>x\<bar>" using False by (simp add: x_def)
  have lo: "2 powi e \<le> \<bar>x\<bar>" and hi: "\<bar>x\<bar> < 2 powi (e + 1)"
    unfolding e_def using ilog2_bounds [OF pos] by simp_all
  have "(1::rat) \<le> \<bar>x\<bar>"
    using False unfolding x_def of_int_abs [symmetric] by (simp only: of_int_1_le_iff)
  with hi have "(2::rat) powi 0 < 2 powi (e + 1)" by simp
  then have e0: "0 \<le> e" using powi2_less_cancel by fastforce
  have "\<bar>x\<bar> \<le> 2 ^ 53"
    using assms unfolding x_def of_int_abs [symmetric]
    by (metis of_int_le_iff of_int_numeral of_int_power)
  with lo have "(2::rat) powi e < 2 powi 54"
    by (simp add: order.strict_trans1 [OF _ less_le_trans [of "2 ^ 53" "2 ^ 54"]])
  then have e53: "e \<le> 53" using powi2_less_cancel by fastforce
  have "\<exists>j. x / 2 powi (e - 52) = of_int j"
  proof (cases "e \<le> 52")
    case True
    then have "x / 2 powi (e - 52) = x * 2 powi (52 - e)"
      by (simp add: power_int_diff field_simps)
    also have "\<dots> = of_int (k * 2 ^ nat (52 - e))"
      using True by (simp add: x_def power_int_def)
    finally show ?thesis by blast
  next
    case False
    with e53 have e: "e = 53" by simp
    from lo \<open>\<bar>x\<bar> \<le> 2 ^ 53\<close> have "\<bar>x\<bar> = 2 ^ 53" by (simp add: e)
    then have "x = 2 ^ 53 \<or> x = - (2 ^ 53)" by (auto simp: abs_if split: if_splits)
    then have "x / 2 powi (e - 52) = of_int (2 ^ 52) \<or> x / 2 powi (e - 52) = of_int (- (2 ^ 52))"
      by (auto simp: e)
    then show ?thesis by blast
  qed
  then obtain j where j: "x / 2 powi (e - 52) = of_int j" by blast
  have "of_int (round_half_even (x / 2 powi (e - 52))) * 2 powi (e - 52) = x"
    unfolding j round_half_even_of_int unfolding j [symmetric] by simp
  moreover have "round_to_double x =
      Fin (of_int (round_half_even (x / 2 powi (e - 52))) * 2 powi (e - 52))"
    by (rule round_to_double_normal [OF lo hi]) (use e0 e53 in simp_all)
  ultimately show ?thesis by (simp add: x_def)
qed

lemma round_to_double_numeral:
  "numeral k \<le> (2::int) ^ 53 \<Longrightarrow> round_to_double (numeral k) = Fin (numeral k)"
  using round_to_double_int [of "numeral k"] by simp

lemma lit_0_30_eq: "lit_0_30 = Fin (5404319552844595 / 18014398509481984)"
  unfolding lit_0_30_def
  by (subst round_to_double_normal [where e = "- 2"])
     (simp_all add: round_half_even_def Let_def floor_rat_numeral_div)

lemma lit_0_70_eq: "lit_0_70 = Fin (3152519739159347 / 4503599627370496)"
  unfolding lit_0_70_def
  by (subst round_to_double_normal [where e = "- 1"])
     (simp_all add: round_half_even_def Let_def floor_rat_numeral_div)

lemma round_to_double_rel:
  assumes lo: "2 powi (- 1022) \<le> \<bar>x\<bar>" and hi: "\<bar>x\<bar> < 2 powi 1023"
  obtains y where "round_to_double x = Fin y" and "\<bar>y - x\<bar> \<le> \<bar>x\<bar> / 2 ^ 53"
proof -
  define e where "e = ilog2 \<bar>x\<bar>"
  define q :: rat where "q = 2 powi (e - 52)"
  define y where "y = of_int (round_half_even (x / q)) * q"
  have "(0::rat) < 2 powi (- 1022)" by (rule zero_less_power_int) simp
  then have pos: "0 < \<bar>x\<bar>" using lo by linarith
  have el: "2 powi e \<le> \<bar>x\<bar>" and eh: "\<bar>x\<bar> < 2 powi (e + 1)"
    unfolding e_def using ilog2_bounds [OF pos] by simp_all
  from lo eh have "(2::rat) powi (- 1022) < 2 powi (e + 1)" by (rule le_less_trans)
  then have e1: "- 1022 \<le> e" using powi2_less_cancel by fastforce
  from el hi have "(2::rat) powi e < 2 powi 1023" by (rule le_less_trans)
  then have e2: "e \<le> 1022" using powi2_less_cancel by fastforce
  have q: "0 < q" unfolding q_def by (rule zero_less_power_int) simp
  have r: "round_to_double x = Fin y"
    unfolding y_def q_def by (rule round_to_double_normal [OF el eh e1 e2])
  have "y - x = (of_int (round_half_even (x / q)) - x / q) * q"
    using q by (simp add: y_def field_simps)
  then have "\<bar>y - x\<bar> = \<bar>of_int (round_half_even (x / q)) - x / q\<bar> * q"
    using q by (simp add: abs_mult)
  also have "\<dots> \<le> (1 / 2) * q"
    using round_half_even_error [of "x / q"] q by (simp only: mult_right_mono less_imp_le)
  also have "(1 / 2) * q = 2 powi e / 2 ^ 53"
    by (simp add: q_def power_int_diff)
  also have "\<dots> \<le> \<bar>x\<bar> / 2 ^ 53"
    using el by (simp add: divide_right_mono)
  finally have "\<bar>y - x\<bar> \<le> \<bar>x\<bar> / 2 ^ 53" .
  with r show thesis by (rule that)
qed

lemma round_to_double_pos:
  assumes lo: "2 powi (- 1022) \<le> x" and hi: "x < 2 powi 1023"
  obtains y where "round_to_double x = Fin y" and "x - x / 2 ^ 53 \<le> y" and "y \<le> x + x / 2 ^ 53"
proof -
  have "(0::rat) < 2 powi (- 1022)" by (rule zero_less_power_int) simp
  then have pos: "0 < x" using lo by linarith
  then have ax: "\<bar>x\<bar> = x" by simp
  obtain y where y: "round_to_double x = Fin y" "\<bar>y - x\<bar> \<le> \<bar>x\<bar> / 2 ^ 53"
    using round_to_double_rel [of x] lo hi unfolding ax by blast
  from y(2) have "x - x / 2 ^ 53 \<le> y" "y \<le> x + x / 2 ^ 53"
    unfolding ax by (simp_all only: abs_le_iff) linarith+
  with y(1) show thesis by (rule that)
qed

section \<open>Numbers that the ledger adapter can pass on\<close>

lemma number_of_int_exact: "\<bar>k\<bar> \<le> 2 ^ 53 \<Longrightarrow> number_of_int k = Fin (of_int k)"
  unfolding number_of_int_def by (rule round_to_double_int)

lemma int256_number_of_int:
  "\<bar>k\<bar> \<le> 9007199254740991 \<Longrightarrow> int256_number (Fin (of_int k))"
proof -
  assume "\<bar>k\<bar> \<le> 9007199254740991"
  then have "\<bar>(of_int k :: rat)\<bar> \<le> of_int 9007199254740991"
    unfolding of_int_abs [symmetric] by (simp only: of_int_le_iff)
  then show ?thesis by simp
qed

lemma createToken_encodable:
  assumes "\<bar>amount\<bar> \<le> 9007199254740991"
  shows "createToken c tid pid amount =
           (case contract_createToken c tid pid (Fin (of_int amount)) of
              Inl e \<Rightarrow> Inl e
            | Inr hash \<Rightarrow> Inr hash)"
proof -
  have "number_of_int amount = Fin (of_int amount)"
    by (rule number_of_int_exact) (use assms in simp)
  then show ?thesis
    using int256_number_of_int [OF assms] by (simp add: createToken_def)
qed

section \<open>Readiness gate\<close>

lemma pool_of_simps:
  "select_project (pool_of st) pid = Inr (project_rows st pid)"
  "count_holders (pool_of st) pid = Inr (holder_count st pid)"
  by (simp_all add: pool_of_def)

lemma holder_count_nonneg: "0 \<le> holder_count st pid"
  by (simp add: holder_count_def)

text \<open>
  Claim C5. The readiness check runs its five checks in the order: the project exists,
  it is not completed, it is not cancelled, no token is left, there is a holder; the
  first check that fails gives the reason. In particular a cancelled project with
  \<open>available_tokens = 0\<close> is reported as cancelled, and \<open>ready\<close> holds, with the
  holder count, exactly when all five checks pass. The project row satisfies the data
  model's \<open>0 \<le> available_tokens\<close>.
\<close>

theorem readiness_check_order:
  "(project_rows st pid = [] \<longrightarrow>
      \<not> ready (checkReadiness st pid) \<and> reason (checkReadiness st pid) = ''Project not found'')
   \<and> (project_rows st pid = p # ps \<and> 0 \<le> available_tokens p \<longrightarrow>
        (ready (checkReadiness st pid) \<longleftrightarrow>
           status p \<noteq> Completed \<and> status p \<noteq> Cancelled \<and> available_tokens p = 0
           \<and> 1 \<le> holder_count st pid)
      \<and> (ready (checkReadiness st pid) \<longrightarrow>
           tokenHolderCount (checkReadiness st pid) = Some (holder_count st pid))
      \<and> (status p = Completed \<longrightarrow>
           reason (checkReadiness st pid) = ''Project is already completed'')
      \<and> (status p = Cancelled \<longrightarrow>
           reason (checkReadiness st pid) = ''Project is cancelled'')
      \<and> (status p = Active \<and> available_tokens p \<noteq> 0 \<longrightarrow>
           reason (checkReadiness st pid) =
             ''Cannot distribute profit until all tokens are sold. Currently ''
               @ string_of_int (total_tokens p - available_tokens p) @ ''/''
               @ string_of_int (total_tokens p) @ '' tokens sold. Remaining: ''
               @ string_of_int (available_tokens p) @ '' tokens.'')
      \<and> (status p = Active \<and> available_tokens p = 0 \<and> holder_count st pid = 0 \<longrightarrow>
           reason (checkReadiness st pid) = ''No active token holders found for this project''))"
  using holder_count_nonneg [of st pid]
  by (cases "status p")
     (auto simp: checkReadiness_def isProjectReadyForDistribution_def readiness_try_def
        pool_of_simps not_ready_def)

theorem readiness_check_order_witness:
  "project_rows cancelled_store ''P1'' = [cancelled_project]
   \<and> available_tokens cancelled_project = 0 \<and> status cancelled_project = Cancelled
   \<and> \<not> ready (checkReadiness cancelled_store ''P1'')
   \<and> reason (checkReadiness cancelled_store ''P1'') = ''Project is cancelled''
   \<and> project_rows sold_out_store ''P1'' = [sold_out_project]
   \<and> ready (checkReadiness sold_out_store ''P1'')
   \<and> tokenHolderCount (checkReadiness sold_out_store ''P1'') = Some 2
   \<and> project_rows empty_store ''P1'' = []
   \<and> reason (checkReadiness empty_store ''P1'') = ''Project not found''"
  using readiness_check_order [of cancelled_store "''P1''" cancelled_project "[]"]
    readiness_check_order [of sold_out_store "''P1''" sold_out_project "[]"]
    readiness_check_order [of empty_store "''P1''"]
  by (simp add: fixtures project_rows_def holder_count_def active_tokens_def)

text \<open>
  Claim C9. The readiness check always returns a result: a throw of either store query,
  the one for the project or, once it is reached, the one that counts the holders, is
  caught and becomes \<open>ready = False\<close> with the reason \<^verbatim>\<open>Database error:\<close> followed by
  the error's message, and all counters zero; nothing else in the block throws.
\<close>

theorem readiness_catches_store_errors:
  "(select_project pl pid = Inl e \<longrightarrow> readiness_try pl pid = Inl e)
   \<and> (select_project pl pid = Inr (p # ps) \<and> status p \<noteq> Completed \<and> status p \<noteq> Cancelled
        \<and> \<not> 0 < available_tokens p \<and> count_holders pl pid = Inl e \<longrightarrow>
        readiness_try pl pid = Inl e)
   \<and> (readiness_try pl pid = Inl e \<longrightarrow>
        (select_project pl pid = Inl e \<or> count_holders pl pid = Inl e)
        \<and> isProjectReadyForDistribution pl pid =
            \<lparr>ready = False, reason = ''Database error: '' @ error_message e,
             projectExists = False, tokensSold = 0, totalTokens = 0, availableTokens = 0,
             tokenHolderCount = None\<rparr>)"
  by (auto simp: isProjectReadyForDistribution_def readiness_try_def
        split: sum.splits list.splits if_splits)

theorem readiness_catches_store_errors_witness:
  "select_project failing_pool ''P1'' = Inl (Error ''Connection lost'')
   \<and> isProjectReadyForDistribution failing_pool ''P1'' =
       \<lparr>ready = False, reason = ''Database error: Connection lost'',
        projectExists = False, tokensSold = 0, totalTokens = 0, availableTokens = 0,
        tokenHolderCount = None\<rparr>
   \<and> select_project count_failing_pool ''P1'' = Inr [sold_out_project]
   \<and> status sold_out_project = Active \<and> available_tokens sold_out_project = 0
   \<and> count_holders count_failing_pool ''P1'' = Inl (Error ''Connection lost'')
   \<and> isProjectReadyForDistribution count_failing_pool ''P1'' =
       \<lparr>ready = False, reason = ''Database error: Connection lost'',
        projectExists = False, tokensSold = 0, totalTokens = 0, availableTokens = 0,
        tokenHolderCount = None\<rparr>"
  using readiness_catches_store_errors [of failing_pool "''P1''" "Error ''Connection lost''"]
    readiness_catches_store_errors [where pl = count_failing_pool and pid = "''P1''"
      and p = sold_out_project and ps = "[]" and e = "Error ''Connection lost''"]
  by (simp add: failing_pool_def count_failing_pool_def project_rows_def sold_out_store_def
        sold_out_project_def)

section \<open>Token purchase\<close>

lemma shown_three: "string_of_int 3 = ''3''"
  by code_simp

text \<open>
  Claim C7. A purchase that asks for more tokens than the active project has left (for
  example 5 against 3) is refused with the insufficient-supply response and changes
  nothing: the store after the call is the store before it, so \<open>available_tokens\<close> keeps
  its value and no holding or transaction row is written.
\<close>

theorem purchase_insufficient_supply:
  assumes "req_project_id req = Some pid" and "pid \<noteq> []"
    and "req_amount req = Some amount"
    and "filter (\<lambda>p. project_id p = pid \<and> status p = Active) (projects st) = proj # rest"
    and "0 \<le> available_tokens proj"
    and "available_tokens proj < amount"
  shows "purchaseTokens c st req =
           (\<lparr>status_code = 400,
             message = ''Insufficient tokens available. Only ''
               @ string_of_int (available_tokens proj) @ '' tokens left.'',
             body = None\<rparr>, st)"
  using assms by (simp add: purchaseTokens_def purchase_try_def)

theorem purchase_insufficient_supply_witness:
  "available_tokens open_project = 3
   \<and> purchaseTokens accepting_contract open_store (buy ''P2'' 5 ''T9'' ''X9'') =
       (\<lparr>status_code = 400, message = ''Insufficient tokens available. Only 3 tokens left.'',
         body = None\<rparr>, open_store)"
  using purchase_insufficient_supply [of "buy ''P2'' 5 ''T9'' ''X9''" "''P2''" 5 open_store
      open_project "[]" accepting_contract]
    shown_three
  by (simp add: fixtures)

text \<open>
  Claim C3, as the code has it. When \<^verbatim>\<open>createToken\<close> throws during a purchase whose
  preconditions all hold, the handler's \<^verbatim>\<open>catch\<close> rolls the transaction back and
  answers 500: the store is unchanged, so no holding is created, \<open>available_tokens\<close> is
  not decremented and no transaction row is written.
\<close>

theorem purchase_rolled_back_on_ledger_failure:
  assumes "req_project_id req = Some pid" and "pid \<noteq> []"
    and "req_amount req = Some amount" and "0 < amount"
    and "filter (\<lambda>p. project_id p = pid \<and> status p = Active) (projects st) = proj # rest"
    and "amount \<le> available_tokens proj"
    and "createToken c (new_token_id req) pid amount = Inl e"
  shows "purchaseTokens c st req =
           (\<lparr>status_code = 500, message = ''Error purchasing tokens'', body = None\<rparr>, st)"
  using assms by (simp add: purchaseTokens_def purchase_try_def)

theorem purchase_rolled_back_on_ledger_failure_witness:
  "createToken failing_contract ''T9'' ''P2'' 2 = Inl (Error ''ledger unreachable'')
   \<and> purchaseTokens failing_contract open_store (buy ''P2'' 2 ''T9'' ''X9'') =
       (\<lparr>status_code = 500, message = ''Error purchasing tokens'', body = None\<rparr>, open_store)"
  using purchase_rolled_back_on_ledger_failure [of "buy ''P2'' 2 ''T9'' ''X9''" "''P2''" 2
      open_store open_project "[]" failing_contract "Error ''ledger unreachable''"]
  by (simp add: fixtures createToken_encodable)

text \<open>
  Claim C3 as stated says that the sale survives a ledger failure. On the store with 3
  tokens left, a purchase of 2 with a failing ledger is answered with 500 and leaves no
  holding, no decrement and no transaction row.
\<close>

theorem purchase_survives_ledger_failure_counterexample:
  "createToken failing_contract ''T9'' ''P2'' 2 = Inl (Error ''ledger unreachable'')
   \<and> 0 < (2::int) \<and> status open_project = Active \<and> 2 \<le> available_tokens open_project
   \<and> status_code (fst (purchaseTokens failing_contract open_store (buy ''P2'' 2 ''T9'' ''X9''))) = 500
   \<and> tokens (snd (purchaseTokens failing_contract open_store (buy ''P2'' 2 ''T9'' ''X9'')))
       = tokens open_store
   \<and> map available_tokens
        (projects (snd (purchaseTokens failing_contract open_store (buy ''P2'' 2 ''T9'' ''X9''))))
       = [3]
   \<and> transactions (snd (purchaseTokens failing_contract open_store (buy ''P2'' 2 ''T9'' ''X9'')))
       = []"
  by (simp add: purchaseTokens_def purchase_try_def fixtures createToken_encodable)

lemma purchase_effect:
  "snd (purchaseTokens c st req) = st
   \<or> (\<exists>pid n proj rest tok.
        req_project_id req = Some pid \<and> req_amount req = Some n
        \<and> filter (\<lambda>p. project_id p = pid \<and> status p = Active) (projects st) = proj # rest
        \<and> tokens (snd (purchaseTokens c st req)) = tokens st @ [tok]
        \<and> projects (snd (purchaseTokens c st req)) =
            map (\<lambda>p. if project_id p = pid
                     then p\<lparr>available_tokens := available_tokens p - n\<rparr> else p) (projects st)
        \<and> 0 < n \<and> n \<le> available_tokens proj
        \<and> tok_project_id tok = pid \<and> tok_amount tok = n \<and> tok_status tok = TokenActive)"
  by (simp add: purchaseTokens_def purchase_try_def Let_def
        split: option.splits list.splits sum.splits)

lemma rows_after_decrement:
  "filter (\<lambda>p. project_id p = pid)
     (map (\<lambda>p. if project_id p = pid'
              then p\<lparr>available_tokens := available_tokens p - n\<rparr> else p) xs) =
   map (\<lambda>p. if pid = pid' then p\<lparr>available_tokens := available_tokens p - n\<rparr> else p)
     (filter (\<lambda>p. project_id p = pid) xs)"
  by (induction xs) auto

lemma single_active_row:
  assumes "length (filter (\<lambda>p. project_id p = pid) xs) \<le> 1"
    and "filter (\<lambda>p. project_id p = pid \<and> status p = Active) xs = proj # rest"
  shows "filter (\<lambda>p. project_id p = pid) xs = [proj]"
proof -
  have sub: "filter (\<lambda>p. project_id p = pid \<and> status p = Active) xs
      = filter (\<lambda>p. status p = Active) (filter (\<lambda>p. project_id p = pid) xs)"
    by (simp add: conj_commute)
  obtain ys where ys: "filter (\<lambda>p. project_id p = pid) xs = ys" by blast
  with assms(1) have "ys = [] \<or> (\<exists>y. ys = [y])"
    by (cases ys) (auto simp: length_Suc_conv)
  with assms(2) show ?thesis
    unfolding sub ys by (auto split: if_splits)
qed

lemma purchase_preserves:
  assumes uniq: "length (project_rows st pid) \<le> 1" and inv: "supply_invariant st pid"
  shows "supply_invariant (snd (purchaseTokens c st req)) pid
         \<and> length (project_rows (snd (purchaseTokens c st req)) pid) \<le> 1
         \<and> map total_tokens (project_rows (snd (purchaseTokens c st req)) pid)
             = map total_tokens (project_rows st pid)"
proof -
  let ?st' = "snd (purchaseTokens c st req)"
  consider "?st' = st"
    | pid' n proj rest tok where "0 < n"
        "filter (\<lambda>p. project_id p = pid' \<and> status p = Active) (projects st) = proj # rest"
        "n \<le> available_tokens proj" "tok_project_id tok = pid'" "tok_amount tok = n"
        "tok_status tok = TokenActive"
        "projects ?st' = map (\<lambda>p. if project_id p = pid'
                     then p\<lparr>available_tokens := available_tokens p - n\<rparr> else p) (projects st)"
        "tokens ?st' = tokens st @ [tok]"
    using purchase_effect [of c st req] by blast
  then show ?thesis
  proof cases
    case 1
    then show ?thesis using uniq inv by simp
  next
    case 2
    have rows: "project_rows ?st' pid =
        map (\<lambda>p. if pid = pid' then p\<lparr>available_tokens := available_tokens p - n\<rparr> else p)
          (project_rows st pid)"
      unfolding project_rows_def 2(7) by (rule rows_after_decrement)
    have sold: "sold_amount ?st' pid = sold_amount st pid + (if pid = pid' then n else 0)"
      by (simp add: sold_amount_def active_tokens_def 2)
    show ?thesis
    proof (cases "pid = pid'")
      case False
      then have "project_rows ?st' pid = project_rows st pid"
        and "sold_amount ?st' pid = sold_amount st pid"
        by (simp_all add: rows sold)
      then show ?thesis
        using uniq inv by (simp only: supply_invariant_def)
    next
      case True
      have one: "project_rows st pid = [proj]"
        unfolding project_rows_def
        by (rule single_active_row) (use uniq 2(2) True in \<open>simp_all add: project_rows_def\<close>)
      have r: "project_rows ?st' pid = [proj\<lparr>available_tokens := available_tokens proj - n\<rparr>]"
        unfolding rows one by (simp add: True)
      have s: "sold_amount ?st' pid = sold_amount st pid + n"
        unfolding sold by (simp add: True)
      from inv one have a: "available_tokens proj = total_tokens proj - sold_amount st pid"
        by (simp add: supply_invariant_def)
      show ?thesis
        unfolding supply_invariant_def r s one using a 2(3) by simp
    qed
  qed
qed

lemma purchase_all_preserves:
  assumes "length (project_rows st pid) \<le> 1" and "supply_invariant st pid"
  shows "supply_invariant (purchase_all c st reqs) pid
         \<and> map total_tokens (project_rows (purchase_all c st reqs) pid)
             = map total_tokens (project_rows st pid)"
  using assms
proof (induction reqs arbitrary: st)
  case Nil
  then show ?case by simp
next
  case (Cons req reqs)
  from purchase_preserves [OF Cons.prems, of c req]
  have step: "supply_invariant (snd (purchaseTokens c st req)) pid"
    "length (project_rows (snd (purchaseTokens c st req)) pid) \<le> 1"
    "map total_tokens (project_rows (snd (purchaseTokens c st req)) pid)
       = map total_tokens (project_rows st pid)"
    by simp_all
  from Cons.IH [OF step(2) step(1)] step(3) show ?case by simp
qed

text \<open>
  Claim C6. After any sequence of purchases on a store in which a project was created
  with \<open>total_tokens = available_tokens = supply\<close> (non-negative, under a fresh
  identifier), the project's \<open>available_tokens\<close> is not negative and equals
  \<open>total_tokens\<close> minus the sum of the amounts of its active holdings. Every prefix of a
  sequence is a sequence, so this holds after each purchase.
\<close>

theorem purchases_keep_supply_invariant:
  assumes "project_rows st new_id = []" and "active_tokens st new_id = []"
    and "0 \<le> supply"
  shows "supply_invariant
           (purchase_all c (snd (createProject st new_id nm descr supply price capital adminId)) reqs)
           new_id
         \<and> map total_tokens
             (project_rows
                (purchase_all c (snd (createProject st new_id nm descr supply price capital adminId)) reqs)
                new_id) = [supply]"
proof -
  let ?st0 = "snd (createProject st new_id nm descr supply price capital adminId)"
  have rows: "project_rows ?st0 new_id =
      [\<lparr>project_id = new_id, name = nm, description = descr, total_tokens = supply,
        available_tokens = supply, token_price = price, initial_capital = capital,
        admin_id = adminId, status = Active\<rparr>]"
    using assms(1) by (simp add: createProject_def project_rows_def Let_def)
  have toks: "active_tokens ?st0 new_id = []"
    using assms(2) by (simp add: createProject_def active_tokens_def Let_def)
  have inv: "supply_invariant ?st0 new_id"
    using assms(3) by (simp add: supply_invariant_def rows sold_amount_def toks)
  have uniq: "length (project_rows ?st0 new_id) \<le> 1"
    by (simp add: rows)
  from purchase_all_preserves [OF uniq inv, of c reqs] show ?thesis
    by (simp add: rows)
qed

theorem purchases_keep_supply_invariant_witness:
  "project_rows empty_store ''P9'' = [] \<and> active_tokens empty_store ''P9'' = []
   \<and> (0::int) \<le> 10
   \<and> supply_invariant
        (purchase_all accepting_contract
           (snd (createProject empty_store ''P9'' ''Mill'' ''Flour'' 10 (Fin 10) (Fin 100) 1))
           three_purchases) ''P9''
   \<and> map total_tokens
        (project_rows
           (purchase_all accepting_contract
              (snd (createProject empty_store ''P9'' ''Mill'' ''Flour'' 10 (Fin 10) (Fin 100) 1))
              three_purchases) ''P9'') = [10]"
  using purchases_keep_supply_invariant [of empty_store "''P9''" 10 accepting_contract
      "''Mill''" "''Flour''" "Fin 10" "Fin 100" 1 three_purchases]
  by (simp add: project_rows_def active_tokens_def empty_store_def)

section \<open>Profit distribution\<close>

lemma latest_dist_id_records [simp]:
  "latest_dist_id (st\<lparr>user_profit_records := rs\<rparr>) pid = latest_dist_id st pid"
  by (simp add: latest_dist_id_def)

lemma credit_holders_eq:
  "credit_holders dm pid ppt hs st acc =
     (st\<lparr>user_profit_records := user_profit_records st
           @ map (credit_row dm pid ppt (latest_dist_id st pid)) hs\<rparr>,
      acc @ map (credit_entry dm ppt) hs)"
  by (induction hs arbitrary: st acc) simp_all

lemma distributeProfit_ledger_ok:
  assumes "project_rows st pid = p # ps" and "status p \<noteq> Completed"
    and "\<not> 0 < available_tokens p" and "tokenHolders_query st pid \<noteq> []"
    and "addDividenProfit c pid profit (adminShare_of profit) (userTotalShare_of profit)
           (profitPerToken_of dm profit (tokenHolders_query st pid)) = Inr hash"
  shows "fst (distributeProfit c dm st pid ic tr profit a) =
           Inr \<lparr>projectId = pid, initialCapital = ic, totalRevenue = tr, newProfit = profit,
                adminShare = adminShare_of profit, userTotalShare = userTotalShare_of profit,
                profitPerToken = profitPerToken_of dm profit (tokenHolders_query st pid),
                totalUserTokens = totalUserTokens_of dm (tokenHolders_query st pid),
                userProfits =
                  map (credit_entry dm (profitPerToken_of dm profit (tokenHolders_query st pid)))
                    (tokenHolders_query st pid),
                blockchainHash = hash, projectStatus = Completed\<rparr>"
    and "projects (snd (distributeProfit c dm st pid ic tr profit a)) =
           map (\<lambda>q. if project_id q = pid then q\<lparr>status := Completed\<rparr> else q) (projects st)"
    and "map upr_profit_amount
           (user_profit_records (snd (distributeProfit c dm st pid ic tr profit a))) =
         map upr_profit_amount (user_profit_records st)
         @ map (\<lambda>h. js_mul (to_number (deliver dm (snd h)))
                   (profitPerToken_of dm profit (tokenHolders_query st pid)))
             (tokenHolders_query st pid)"
  using assms
  by (simp_all add: distributeProfit_def distributeProfit_try_def Let_def credit_holders_eq
        credit_row_def o_def)

lemma filter_complete:
  "filter (\<lambda>p. project_id p = pid)
     (map (\<lambda>q. if project_id q = pid then q\<lparr>status := Completed\<rparr> else q) xs) =
   map (\<lambda>q. q\<lparr>status := Completed\<rparr>) (filter (\<lambda>p. project_id p = pid) xs)"
  by (induction xs) auto

lemma accepting_ledger:
  assumes "int256_number tp" and "int256_number admin" and "int256_number users"
    and "int256_number (Math_floor (js_mul ppt (Fin 100000000)))"
  shows "addDividenProfit accepting_contract pid tp admin users ppt = Inr ''0xd1f1de''"
  using assms by (simp add: addDividenProfit_def accepting_contract_def Let_def)

lemma failing_ledger:
  assumes "int256_number tp" and "int256_number admin" and "int256_number users"
    and "int256_number (Math_floor (js_mul ppt (Fin 100000000)))"
  shows "addDividenProfit failing_contract pid tp admin users ppt
           = Inl (Error ''ledger unreachable'')"
  using assms by (simp add: addDividenProfit_def failing_contract_def Let_def)

lemma addDividenProfit_InrD:
  assumes "addDividenProfit c pid tp admin users ppt = Inr hash"
  shows "int256_number tp" and "int256_number admin" and "int256_number users"
  using assms
  by (auto simp: addDividenProfit_def Let_def split: if_splits option.splits)

lemmas round_eval = round_half_even_def Let_def floor_rat_numeral_div

lemma scenario_shares:
  "adminShare_of (Fin 50000) = Fin 15000"
  "userTotalShare_of (Fin 50000) = Fin 35000"
  unfolding adminShare_of_def userTotalShare_of_def lit_0_30_eq lit_0_70_eq js_mul.simps
  by (subst round_to_double_normal [where e = 13], simp_all add: round_eval,
      subst round_to_double_normal [where e = 15], simp_all add: round_eval)

lemma shown_sums: "string_of_int 60 = ''60''" "string_of_int 40 = ''40''"
  by (code_simp, code_simp)

lemma parsed_digits:
  "digits_value ''06040'' 0 = Some 6040" "digits_value ''60'' 0 = Some 60"
  "digits_value ''40'' 0 = Some 40"
  by simp_all

lemma parsed_sums:
  "unsigned_value ''06040'' = Some 6040" "unsigned_value ''60'' = Some 60"
  "unsigned_value ''40'' = Some 40"
  by (simp_all add: unsigned_value_def parsed_digits)

lemma scenario_total:
  "totalUserTokens_of DecimalNumber [(u1, 60), (u2, 40)] = JNum (Fin 100)"
  "totalUserTokens_of DecimalString [(u1, 60), (u2, 40)] = JStr ''06040''"
  by (simp_all add: number_of_int_def round_to_double_numeral shown_sums)

lemma scenario_ppt:
  "profitPerToken_of DecimalNumber (Fin 50000) [(u1, 60), (u2, 40)] = Fin 350"
  "profitPerToken_of DecimalString (Fin 50000) [(u1, 60), (u2, 40)]
     = Fin (6524254427068185 / 1125899906842624)"
  unfolding profitPerToken_of_def scenario_shares scenario_total
  by (simp add: round_to_double_numeral,
      simp add: parsed_sums round_to_double_numeral,
      subst round_to_double_normal [where e = 2], simp_all add: round_eval)

lemma scenario_credits:
  "js_mul (to_number (deliver DecimalNumber 60)) (Fin 350) = Fin 21000"
  "js_mul (to_number (deliver DecimalNumber 40)) (Fin 350) = Fin 14000"
  by (simp_all add: number_of_int_def round_to_double_numeral)

lemma scenario_credits_string:
  "js_mul (to_number (deliver DecimalString 60)) (Fin (6524254427068185 / 1125899906842624))
     = Fin (6116488525376423 / 17592186044416)"
  "js_mul (to_number (deliver DecimalString 40)) (Fin (6524254427068185 / 1125899906842624))
     = Fin (8155318033835231 / 35184372088832)"
  by (simp add: shown_sums parsed_sums round_to_double_numeral,
      subst round_to_double_normal [where e = 8], simp_all add: round_eval,
      simp add: shown_sums parsed_sums round_to_double_numeral,
      subst round_to_double_normal [where e = 7], simp_all add: round_eval)

lemma scenario_scaled:
  "Math_floor (js_mul (Fin 350) (Fin 100000000)) = Fin 35000000000"
  "Math_floor (js_mul (Fin (6524254427068185 / 1125899906842624)) (Fin 100000000))
     = Fin 579470198"
  by (simp add: round_to_double_numeral,
      simp, subst round_to_double_normal [where e = 29], simp_all add: round_eval)

lemma ready_iff:
  "ready (checkReadiness st pid) \<longleftrightarrow>
     (\<exists>p ps. project_rows st pid = p # ps \<and> status p = Active \<and> \<not> 0 < available_tokens p
        \<and> holder_count st pid \<noteq> 0)"
  by (cases "project_rows st pid"; cases "status (hd (project_rows st pid))")
     (auto simp: checkReadiness_def isProjectReadyForDistribution_def readiness_try_def
        pool_of_def not_ready_def)

lemma sold_out_rows: "project_rows sold_out_store ''P1'' = [sold_out_project]"
  by (simp add: project_rows_def fixtures)

lemma sold_out_holders: "tokenHolders_query sold_out_store ''P1'' = [(7, 60), (8, 40)]"
  by (simp add: tokenHolders_query_def active_tokens_def fixtures)

lemma sold_out_ready: "ready (checkReadiness sold_out_store ''P1'')"
  by (simp add: checkReadiness_def isProjectReadyForDistribution_def readiness_try_def
        pool_of_def project_rows_def holder_count_def active_tokens_def fixtures)

lemma cancelled_rows: "project_rows cancelled_store ''P1'' = [cancelled_project]"
  by (simp add: project_rows_def fixtures)

lemma cancelled_holders: "tokenHolders_query cancelled_store ''P1'' = [(7, 60), (8, 40)]"
  by (simp add: tokenHolders_query_def active_tokens_def fixtures)

lemma scenario_encodable:
  "int256_number (Fin 50000)" "int256_number (Fin 15000)" "int256_number (Fin 35000)"
  "int256_number (Fin 35000000000)" "int256_number (Fin 579470198)"
  by simp_all

lemma scenario_ledger:
  "addDividenProfit accepting_contract pid (Fin 50000) (adminShare_of (Fin 50000))
     (userTotalShare_of (Fin 50000)) (profitPerToken_of dm (Fin 50000) [(u1, 60), (u2, 40)])
   = Inr ''0xd1f1de''"
  unfolding scenario_shares
  by (cases dm; simp only: scenario_ppt;
      rule accepting_ledger; simp only: scenario_scaled scenario_encodable)

lemma scenario_ledger_down:
  "addDividenProfit failing_contract pid (Fin 50000) (adminShare_of (Fin 50000))
     (userTotalShare_of (Fin 50000)) (profitPerToken_of dm (Fin 50000) [(u1, 60), (u2, 40)])
   = Inl (Error ''ledger unreachable'')"
  unfolding scenario_shares
  by (cases dm; simp only: scenario_ppt;
      rule failing_ledger; simp only: scenario_scaled scenario_encodable)

lemma scenario_delivered:
  "deliver DecimalNumber 60 = JNum (Fin 60)" "deliver DecimalNumber 40 = JNum (Fin 40)"
  "deliver DecimalString 60 = JStr ''60''" "deliver DecimalString 40 = JStr ''40''"
  by (simp_all add: number_of_int_def round_to_double_numeral shown_sums)

lemma scenario_entries:
  "credit_entry DecimalNumber (Fin 350) (u, 60) =
     \<lparr>up_user_id = u, up_token_amount = JNum (Fin 60), up_profit_amount = Fin 21000\<rparr>"
  "credit_entry DecimalNumber (Fin 350) (u, 40) =
     \<lparr>up_user_id = u, up_token_amount = JNum (Fin 40), up_profit_amount = Fin 14000\<rparr>"
  "credit_entry DecimalString (Fin (6524254427068185 / 1125899906842624)) (u, 60) =
     \<lparr>up_user_id = u, up_token_amount = JStr ''60'',
      up_profit_amount = Fin (6116488525376423 / 17592186044416)\<rparr>"
  "credit_entry DecimalString (Fin (6524254427068185 / 1125899906842624)) (u, 40) =
     \<lparr>up_user_id = u, up_token_amount = JStr ''40'',
      up_profit_amount = Fin (8155318033835231 / 35184372088832)\<rparr>"
  unfolding credit_entry_def fst_conv snd_conv scenario_credits scenario_credits_string
  unfolding scenario_delivered
  by (rule refl)+

lemma scenario_distribution:
  assumes "project_rows st pid = p # ps" and "status p \<noteq> Completed"
    and "\<not> 0 < available_tokens p"
    and hs: "tokenHolders_query st pid = [(u1, 60), (u2, 40)]"
  shows "fst (distributeProfit accepting_contract DecimalNumber st pid ic tr (Fin 50000) a) =
           Inr \<lparr>projectId = pid, initialCapital = ic, totalRevenue = tr,
                newProfit = Fin 50000, adminShare = Fin 15000, userTotalShare = Fin 35000,
                profitPerToken = Fin 350, totalUserTokens = JNum (Fin 100),
                userProfits =
                  [\<lparr>up_user_id = u1, up_token_amount = JNum (Fin 60),
                    up_profit_amount = Fin 21000\<rparr>,
                   \<lparr>up_user_id = u2, up_token_amount = JNum (Fin 40),
                    up_profit_amount = Fin 14000\<rparr>],
                blockchainHash = ''0xd1f1de'', projectStatus = Completed\<rparr>"
    and "fst (distributeProfit accepting_contract DecimalString st pid ic tr (Fin 50000) a) =
           Inr \<lparr>projectId = pid, initialCapital = ic, totalRevenue = tr,
                newProfit = Fin 50000, adminShare = Fin 15000, userTotalShare = Fin 35000,
                profitPerToken = Fin (6524254427068185 / 1125899906842624),
                totalUserTokens = JStr ''06040'',
                userProfits =
                  [\<lparr>up_user_id = u1, up_token_amount = JStr ''60'',
                    up_profit_amount = Fin (6116488525376423 / 17592186044416)\<rparr>,
                   \<lparr>up_user_id = u2, up_token_amount = JStr ''40'',
                    up_profit_amount = Fin (8155318033835231 / 35184372088832)\<rparr>],
                blockchainHash = ''0xd1f1de'', projectStatus = Completed\<rparr>"
    and "map upr_profit_amount (user_profit_records
           (snd (distributeProfit accepting_contract DecimalNumber st pid ic tr (Fin 50000) a)))
         = map upr_profit_amount (user_profit_records st) @ [Fin 21000, Fin 14000]"
    and "map upr_profit_amount (user_profit_records
           (snd (distributeProfit accepting_contract DecimalString st pid ic tr (Fin 50000) a)))
         = map upr_profit_amount (user_profit_records st)
           @ [Fin (6116488525376423 / 17592186044416), Fin (8155318033835231 / 35184372088832)]"
    and "projects (snd (distributeProfit accepting_contract dm st pid ic tr (Fin 50000) a)) =
           map (\<lambda>q. if project_id q = pid then q\<lparr>status := Completed\<rparr> else q) (projects st)"
proof -
  have ne: "tokenHolders_query st pid \<noteq> []" unfolding hs by simp
  have ledger: "addDividenProfit accepting_contract pid (Fin 50000) (adminShare_of (Fin 50000))
      (userTotalShare_of (Fin 50000)) (profitPerToken_of dm (Fin 50000) (tokenHolders_query st pid))
    = Inr ''0xd1f1de''" for dm
    unfolding hs by (rule scenario_ledger)
  note ok = distributeProfit_ledger_ok [OF assms(1,2,3) ne ledger, of _ ic tr a]
  show "fst (distributeProfit accepting_contract DecimalNumber st pid ic tr (Fin 50000) a) =
           Inr \<lparr>projectId = pid, initialCapital = ic, totalRevenue = tr,
                newProfit = Fin 50000, adminShare = Fin 15000, userTotalShare = Fin 35000,
                profitPerToken = Fin 350, totalUserTokens = JNum (Fin 100),
                userProfits =
                  [\<lparr>up_user_id = u1, up_token_amount = JNum (Fin 60),
                    up_profit_amount = Fin 21000\<rparr>,
                   \<lparr>up_user_id = u2, up_token_amount = JNum (Fin 40),
                    up_profit_amount = Fin 14000\<rparr>],
                blockchainHash = ''0xd1f1de'', projectStatus = Completed\<rparr>"
    unfolding ok(1) hs scenario_shares scenario_ppt scenario_total list.map scenario_entries
    by (rule refl)
  show "fst (distributeProfit accepting_contract DecimalString st pid ic tr (Fin 50000) a) =
           Inr \<lparr>projectId = pid, initialCapital = ic, totalRevenue = tr,
                newProfit = Fin 50000, adminShare = Fin 15000, userTotalShare = Fin 35000,
                profitPerToken = Fin (6524254427068185 / 1125899906842624),
                totalUserTokens = JStr ''06040'',
                userProfits =
                  [\<lparr>up_user_id = u1, up_token_amount = JStr ''60'',
                    up_profit_amount = Fin (6116488525376423 / 17592186044416)\<rparr>,
                   \<lparr>up_user_id = u2, up_token_amount = JStr ''40'',
                    up_profit_amount = Fin (8155318033835231 / 35184372088832)\<rparr>],
                blockchainHash = ''0xd1f1de'', projectStatus = Completed\<rparr>"
    unfolding ok(1) hs scenario_shares scenario_ppt scenario_total list.map scenario_entries
    by (rule refl)
  show "map upr_profit_amount (user_profit_records
           (snd (distributeProfit accepting_contract DecimalNumber st pid ic tr (Fin 50000) a)))
         = map upr_profit_amount (user_profit_records st) @ [Fin 21000, Fin 14000]"
    unfolding ok(3) hs scenario_ppt list.map snd_conv scenario_credits by (rule refl)
  show "map upr_profit_amount (user_profit_records
           (snd (distributeProfit accepting_contract DecimalString st pid ic tr (Fin 50000) a)))
         = map upr_profit_amount (user_profit_records st)
           @ [Fin (6116488525376423 / 17592186044416), Fin (8155318033835231 / 35184372088832)]"
    unfolding ok(3) hs scenario_ppt list.map snd_conv scenario_credits_string by (rule refl)
  show "projects (snd (distributeProfit accepting_contract dm st pid ic tr (Fin 50000) a)) =
           map (\<lambda>q. if project_id q = pid then q\<lparr>status := Completed\<rparr> else q) (projects st)"
    by (rule ok(2))
qed

text \<open>
  Claim C1. The scenario of the specification: the ready project \<open>P1\<close> with
  \<open>total_tokens = 100\<close> and two holders with active holdings of 60 and 40 tokens,
  \<open>newProfit = 50000\<close>, a ledger that accepts the dividend. \<open>adminShare\<close> is 15000,
  \<open>userShare\<close> is 35000 and the project becomes completed, however the sums are
  delivered. When they are delivered as numbers, \<open>profitPerToken\<close> is 350 and the
  credits are 21000 and 14000. When they are delivered as strings, \<^verbatim>\<open>reduce\<close>
  concatenates them to \<^verbatim>\<open>06040\<close>, \<open>profitPerToken\<close> is \<open>35000 / 6040\<close> rounded,
  \<^verbatim>\<open>5.794701986754967\<close>, and the credits are \<^verbatim>\<open>347.68211920529805\<close> and
  \<^verbatim>\<open>231.7880794701987\<close>.
\<close>

theorem distribute_scenario_by_delivery:
  "ready (checkReadiness sold_out_store ''P1'')
   \<and> map total_tokens (project_rows sold_out_store ''P1'') = [100]
   \<and> tokenHolders_query sold_out_store ''P1'' = [(7, 60), (8, 40)]
   \<and> fst (distributeProfit accepting_contract DecimalString sold_out_store ''P1'' (Fin 1000)
            (Fin 51000) (Fin 50000) 1) =
       Inr \<lparr>projectId = ''P1'', initialCapital = Fin 1000, totalRevenue = Fin 51000,
            newProfit = Fin 50000, adminShare = Fin 15000, userTotalShare = Fin 35000,
            profitPerToken = Fin (6524254427068185 / 1125899906842624),
            totalUserTokens = JStr ''06040'',
            userProfits =
              [\<lparr>up_user_id = 7, up_token_amount = JStr ''60'',
                up_profit_amount = Fin (6116488525376423 / 17592186044416)\<rparr>,
               \<lparr>up_user_id = 8, up_token_amount = JStr ''40'',
                up_profit_amount = Fin (8155318033835231 / 35184372088832)\<rparr>],
            blockchainHash = ''0xd1f1de'', projectStatus = Completed\<rparr>
   \<and> map upr_profit_amount (user_profit_records (snd (distributeProfit accepting_contract
         DecimalString sold_out_store ''P1'' (Fin 1000) (Fin 51000) (Fin 50000) 1)))
       = [Fin (6116488525376423 / 17592186044416), Fin (8155318033835231 / 35184372088832)]
   \<and> map status (projects (snd (distributeProfit accepting_contract DecimalString
         sold_out_store ''P1'' (Fin 1000) (Fin 51000) (Fin 50000) 1))) = [Completed]
   \<and> fst (distributeProfit accepting_contract DecimalNumber sold_out_store ''P1'' (Fin 1000)
            (Fin 51000) (Fin 50000) 1) =
       Inr \<lparr>projectId = ''P1'', initialCapital = Fin 1000, totalRevenue = Fin 51000,
            newProfit = Fin 50000, adminShare = Fin 15000, userTotalShare = Fin 35000,
            profitPerToken = Fin 350, totalUserTokens = JNum (Fin 100),
            userProfits =
              [\<lparr>up_user_id = 7, up_token_amount = JNum (Fin 60),
                up_profit_amount = Fin 21000\<rparr>,
               \<lparr>up_user_id = 8, up_token_amount = JNum (Fin 40),
                up_profit_amount = Fin 14000\<rparr>],
            blockchainHash = ''0xd1f1de'', projectStatus = Completed\<rparr>
   \<and> map upr_profit_amount (user_profit_records (snd (distributeProfit accepting_contract
         DecimalNumber sold_out_store ''P1'' (Fin 1000) (Fin 51000) (Fin 50000) 1)))
       = [Fin 21000, Fin 14000]
   \<and> map status (projects (snd (distributeProfit accepting_contract DecimalNumber
         sold_out_store ''P1'' (Fin 1000) (Fin 51000) (Fin 50000) 1))) = [Completed]"
proof -
  have p: "status sold_out_project \<noteq> Completed" "\<not> 0 < available_tokens sold_out_project"
    by (simp_all add: sold_out_project_def)
  note run = scenario_distribution [OF sold_out_rows p sold_out_holders,
      where ic = "Fin 1000" and tr = "Fin 51000" and a = 1]
  have st: "user_profit_records sold_out_store = []"
    "map (\<lambda>q. status (if project_id q = ''P1'' then q\<lparr>status := Completed\<rparr> else q))
       (projects sold_out_store) = [Completed]"
    "total_tokens sold_out_project = 100"
    by (simp_all add: fixtures)
  show ?thesis
    unfolding run by (simp add: sold_out_ready sold_out_rows sold_out_holders st o_def)
qed

text \<open>
  Claim C2, as the code has it. When \<^verbatim>\<open>addDividenProfit\<close> throws, the distribution fails
  with that error and the transaction is rolled back: the store is the one before the
  call. The record inserted with status pending exists only in the working copy of the
  transaction, which the rollback discards.
\<close>

theorem distribute_rolled_back_on_ledger_failure:
  assumes "project_rows st pid = p # ps" and "status p \<noteq> Completed"
    and "\<not> 0 < available_tokens p" and "tokenHolders_query st pid \<noteq> []"
    and "addDividenProfit c pid profit (adminShare_of profit) (userTotalShare_of profit)
           (profitPerToken_of dm profit (tokenHolders_query st pid)) = Inl e"
  shows "distributeProfit c dm st pid ic tr profit a = (Inl e, st)
         \<and> distributeProfit_try c dm st pid ic tr profit a =
             Inl (e, st\<lparr>profit_distributions := profit_distributions st @
                       [\<lparr>dist_id = next_dist_id st, dist_project_id = pid,
                         total_profit = profit, admin_share = adminShare_of profit,
                         user_share = userTotalShare_of profit,
                         profit_per_token =
                           profitPerToken_of dm profit (tokenHolders_query st pid),
                         dist_blockchain_hash = None, dist_status = Pending\<rparr>]\<rparr>)"
  using assms
  by (simp add: distributeProfit_def distributeProfit_try_def Let_def)

theorem distribute_rolled_back_on_ledger_failure_witness:
  "addDividenProfit failing_contract ''P1'' (Fin 50000) (Fin 15000) (Fin 35000)
       (Fin (6524254427068185 / 1125899906842624))
     = Inl (Error ''ledger unreachable'')
   \<and> distributeProfit failing_contract DecimalString sold_out_store ''P1'' (Fin 1000)
         (Fin 51000) (Fin 50000) 1
       = (Inl (Error ''ledger unreachable''), sold_out_store)
   \<and> distributeProfit_try failing_contract DecimalString sold_out_store ''P1'' (Fin 1000)
         (Fin 51000) (Fin 50000) 1 =
       Inl (Error ''ledger unreachable'',
            sold_out_store\<lparr>profit_distributions :=
              [\<lparr>dist_id = 1, dist_project_id = ''P1'', total_profit = Fin 50000,
                admin_share = Fin 15000, user_share = Fin 35000,
                profit_per_token = Fin (6524254427068185 / 1125899906842624),
                dist_blockchain_hash = None, dist_status = Pending\<rparr>]\<rparr>)"
proof -
  have ledger: "addDividenProfit failing_contract ''P1'' (Fin 50000) (adminShare_of (Fin 50000))
      (userTotalShare_of (Fin 50000))
      (profitPerToken_of DecimalString (Fin 50000) (tokenHolders_query sold_out_store ''P1''))
    = Inl (Error ''ledger unreachable'')"
    unfolding sold_out_holders by (rule scenario_ledger_down)
  have none: "profit_distributions sold_out_store = []"
    by (simp add: sold_out_store_def)
  have p: "status sold_out_project \<noteq> Completed" "\<not> 0 < available_tokens sold_out_project"
    by (simp_all add: sold_out_project_def)
  have hs: "tokenHolders_query sold_out_store ''P1'' \<noteq> []"
    by (simp add: sold_out_holders)
  have one: "next_dist_id sold_out_store = 1"
    by (simp add: next_dist_id_def none)
  show ?thesis
    using ledger distribute_rolled_back_on_ledger_failure [where profit = "Fin 50000"
        and ic = "Fin 1000" and tr = "Fin 51000" and a = 1, OF sold_out_rows p hs ledger]
    unfolding sold_out_holders scenario_shares scenario_ppt one none append_Nil
    by (rule conjI)
qed

text \<open>
  Claim C2 as stated says that the pending record remains in the store. On the sold-out
  store with a failing ledger, the distribution fails and the store holds no distribution
  record afterwards, however the sums are delivered.
\<close>

theorem distribute_pending_record_counterexample:
  "addDividenProfit failing_contract ''P1'' (Fin 50000) (Fin 15000) (Fin 35000)
       (Fin (6524254427068185 / 1125899906842624))
     = Inl (Error ''ledger unreachable'')
   \<and> fst (distributeProfit failing_contract DecimalString sold_out_store ''P1'' (Fin 1000)
            (Fin 51000) (Fin 50000) 1) = Inl (Error ''ledger unreachable'')
   \<and> profit_distributions (snd (distributeProfit failing_contract DecimalString sold_out_store
        ''P1'' (Fin 1000) (Fin 51000) (Fin 50000) 1)) = []
   \<and> addDividenProfit failing_contract ''P1'' (Fin 50000) (Fin 15000) (Fin 35000) (Fin 350)
     = Inl (Error ''ledger unreachable'')
   \<and> fst (distributeProfit failing_contract DecimalNumber sold_out_store ''P1'' (Fin 1000)
            (Fin 51000) (Fin 50000) 1) = Inl (Error ''ledger unreachable'')
   \<and> profit_distributions (snd (distributeProfit failing_contract DecimalNumber sold_out_store
        ''P1'' (Fin 1000) (Fin 51000) (Fin 50000) 1)) = []"
proof -
  have ledger: "addDividenProfit failing_contract ''P1'' (Fin 50000) (adminShare_of (Fin 50000))
      (userTotalShare_of (Fin 50000)) (profitPerToken_of dm (Fin 50000) [(7, 60), (8, 40)])
    = Inl (Error ''ledger unreachable'')" for dm
    by (rule scenario_ledger_down)
  have run: "distributeProfit failing_contract dm sold_out_store ''P1'' (Fin 1000) (Fin 51000)
          (Fin 50000) 1 = (Inl (Error ''ledger unreachable''), sold_out_store)" for dm
    by (simp add: distributeProfit_def distributeProfit_try_def Let_def sold_out_rows
          sold_out_holders ledger) (simp add: sold_out_project_def)
  have none: "profit_distributions sold_out_store = []"
    by (simp add: sold_out_store_def)
  show ?thesis
    using ledger [of DecimalString] ledger [of DecimalNumber]
    unfolding run fst_conv snd_conv none scenario_shares scenario_ppt
    by simp
qed

text \<open>
  Claim C4. The readiness check rejects the cancelled, sold-out project, but
  \<^verbatim>\<open>distributeProfit\<close> itself only rejects a completed project: called on the cancelled
  project it succeeds, writes the distribution and the credits, and turns the status from
  cancelled to completed. This is so however the sums are delivered; only the amounts
  differ.
\<close>

theorem distribute_accepts_cancelled_project:
  "status cancelled_project = Cancelled
   \<and> \<not> ready (checkReadiness cancelled_store ''P1'')
   \<and> reason (checkReadiness cancelled_store ''P1'') = ''Project is cancelled''
   \<and> fst (distributeProfit accepting_contract DecimalNumber cancelled_store ''P1'' (Fin 1000)
            (Fin 51000) (Fin 50000) 1) =
       Inr \<lparr>projectId = ''P1'', initialCapital = Fin 1000, totalRevenue = Fin 51000,
            newProfit = Fin 50000, adminShare = Fin 15000, userTotalShare = Fin 35000,
            profitPerToken = Fin 350, totalUserTokens = JNum (Fin 100),
            userProfits =
              [\<lparr>up_user_id = 7, up_token_amount = JNum (Fin 60),
                up_profit_amount = Fin 21000\<rparr>,
               \<lparr>up_user_id = 8, up_token_amount = JNum (Fin 40),
                up_profit_amount = Fin 14000\<rparr>],
            blockchainHash = ''0xd1f1de'', projectStatus = Completed\<rparr>
   \<and> map upr_profit_amount (user_profit_records (snd (distributeProfit accepting_contract
         DecimalNumber cancelled_store ''P1'' (Fin 1000) (Fin 51000) (Fin 50000) 1)))
       = [Fin 21000, Fin 14000]
   \<and> fst (distributeProfit accepting_contract DecimalString cancelled_store ''P1'' (Fin 1000)
            (Fin 51000) (Fin 50000) 1) =
       Inr \<lparr>projectId = ''P1'', initialCapital = Fin 1000, totalRevenue = Fin 51000,
            newProfit = Fin 50000, adminShare = Fin 15000, userTotalShare = Fin 35000,
            profitPerToken = Fin (6524254427068185 / 1125899906842624),
            totalUserTokens = JStr ''06040'',
            userProfits =
              [\<lparr>up_user_id = 7, up_token_amount = JStr ''60'',
                up_profit_amount = Fin (6116488525376423 / 17592186044416)\<rparr>,
               \<lparr>up_user_id = 8, up_token_amount = JStr ''40'',
                up_profit_amount = Fin (8155318033835231 / 35184372088832)\<rparr>],
            blockchainHash = ''0xd1f1de'', projectStatus = Completed\<rparr>
   \<and> map upr_profit_amount (user_profit_records (snd (distributeProfit accepting_contract
         DecimalString cancelled_store ''P1'' (Fin 1000) (Fin 51000) (Fin 50000) 1)))
       = [Fin (6116488525376423 / 17592186044416), Fin (8155318033835231 / 35184372088832)]
   \<and> map status (projects (snd (distributeProfit accepting_contract DecimalNumber
         cancelled_store ''P1'' (Fin 1000) (Fin 51000) (Fin 50000) 1))) = [Completed]
   \<and> map dist_status (profit_distributions (snd (distributeProfit accepting_contract
         DecimalNumber cancelled_store ''P1'' (Fin 1000) (Fin 51000) (Fin 50000) 1)))
       = [DistributionCompleted]
   \<and> map status (projects (snd (distributeProfit accepting_contract DecimalString
         cancelled_store ''P1'' (Fin 1000) (Fin 51000) (Fin 50000) 1))) = [Completed]
   \<and> map dist_status (profit_distributions (snd (distributeProfit accepting_contract
         DecimalString cancelled_store ''P1'' (Fin 1000) (Fin 51000) (Fin 50000) 1)))
       = [DistributionCompleted]"
proof -
  have gate: "\<not> ready (checkReadiness cancelled_store ''P1'')
      \<and> reason (checkReadiness cancelled_store ''P1'') = ''Project is cancelled''"
    by (simp add: checkReadiness_def isProjectReadyForDistribution_def readiness_try_def
          pool_of_def cancelled_rows not_ready_def) (simp add: fixtures)
  have p: "status cancelled_project = Cancelled" "available_tokens cancelled_project = 0"
    by (simp_all add: fixtures)
  have p': "status cancelled_project \<noteq> Completed" "\<not> 0 < available_tokens cancelled_project"
    by (simp_all add: p)
  have st: "projects cancelled_store = [cancelled_project]"
    "profit_distributions cancelled_store = []" "user_profit_records cancelled_store = []"
    by (simp_all add: cancelled_store_def sold_out_store_def)
  have pid: "project_id cancelled_project = ''P1''" by (simp add: fixtures)
  note run = scenario_distribution [OF cancelled_rows p' cancelled_holders,
      where ic = "Fin 1000" and tr = "Fin 51000" and a = 1]
  have dists: "map dist_status (profit_distributions (snd (distributeProfit accepting_contract dm
      cancelled_store ''P1'' (Fin 1000) (Fin 51000) (Fin 50000) 1))) = [DistributionCompleted]"
    for dm
    by (simp add: distributeProfit_def distributeProfit_try_def Let_def cancelled_rows
          cancelled_holders scenario_ledger p st credit_holders_eq next_dist_id_def
          latest_dist_id_def)
  show ?thesis
    unfolding run dists by (simp add: gate p st pid)
qed




section \<open>Split conservation\<close>

lemma shares_up_to_rounding:
  assumes lo: "1 \<le> n" and hi: "n \<le> 2 ^ 1000"
  obtains x u where "adminShare_of (Fin n) = Fin x" and "userTotalShare_of (Fin n) = Fin u"
    and "\<bar>x + u - n\<bar> \<le> n / 2 ^ 52" and "n / 2 \<le> u" and "u \<le> n"
proof -
  define c3 :: rat where "c3 = 5404319552844595 / 18014398509481984"
  define c7 :: rat where "c7 = 3152519739159347 / 4503599627370496"
  have small: "(2::rat) powi (- 1022) \<le> 1 / 4" by simp
  have big: "(2::rat) ^ 1000 < 2 powi 1023" by simp
  have a_lo: "2 powi (- 1022) \<le> n * c3"
    using lo small unfolding c3_def by linarith
  have a_hi: "n * c3 < 2 powi 1023"
    using lo hi big unfolding c3_def by linarith
  have u_lo: "2 powi (- 1022) \<le> n * c7"
    using lo small unfolding c7_def by linarith
  have u_hi: "n * c7 < 2 powi 1023"
    using lo hi big unfolding c7_def by linarith
  obtain x where x: "round_to_double (n * c3) = Fin x"
    "n * c3 - n * c3 / 2 ^ 53 \<le> x" "x \<le> n * c3 + n * c3 / 2 ^ 53"
    using round_to_double_pos [OF a_lo a_hi] by blast
  obtain u where u: "round_to_double (n * c7) = Fin u"
    "n * c7 - n * c7 / 2 ^ 53 \<le> u" "u \<le> n * c7 + n * c7 / 2 ^ 53"
    using round_to_double_pos [OF u_lo u_hi] by blast
  have 1: "adminShare_of (Fin n) = Fin x"
    unfolding adminShare_of_def lit_0_30_eq js_mul.simps c3_def [symmetric] by (rule x(1))
  have 2: "userTotalShare_of (Fin n) = Fin u"
    unfolding userTotalShare_of_def lit_0_70_eq js_mul.simps c7_def [symmetric] by (rule u(1))
  have 3: "\<bar>x + u - n\<bar> \<le> n / 2 ^ 52"
    using x(2,3) u(2,3) lo unfolding c3_def c7_def abs_le_iff by simp
  have 4: "n / 2 \<le> u" "u \<le> n"
    using u(2,3) lo unfolding c7_def by simp_all
  from 1 2 3 4 show thesis by (rule that)
qed

lemma total_tokens_exact:
  assumes "\<forall>h \<in> set hs. 0 < snd h" and "0 \<le> s" and "s + sum_list (map snd hs) \<le> 2 ^ 53"
  shows "foldl (\<lambda>sum holder. js_add sum (number_of_int (snd holder))) (Fin (of_int s)) hs
           = Fin (of_int (s + sum_list (map snd hs)))"
  using assms
proof (induction hs arbitrary: s)
  case Nil
  then show ?case by simp
next
  case (Cons h hs)
  have nonneg: "0 \<le> sum_list (map snd hs)"
    by (rule sum_list_nonneg) (use Cons.prems(1) in force)
  have h: "0 < snd h" using Cons.prems(1) by simp
  have hb: "\<bar>snd h\<bar> \<le> 2 ^ 53" "\<bar>s + snd h\<bar> \<le> 2 ^ 53"
    using Cons.prems(2,3) h nonneg by simp_all
  have step: "js_add (Fin (of_int s)) (number_of_int (snd h)) = Fin (of_int (s + snd h))"
    using round_to_double_int [OF hb(1)] round_to_double_int [OF hb(2)]
    by (simp add: number_of_int_def)
  have "foldl (\<lambda>sum holder. js_add sum (number_of_int (snd holder)))
          (Fin (of_int (s + snd h))) hs
        = Fin (of_int (s + snd h + sum_list (map snd hs)))"
    by (rule Cons.IH) (use Cons.prems h in \<open>simp_all add: add.assoc\<close>)
  then show ?case by (simp add: step add.assoc)
qed

lemma credits_up_to_rounding:
  assumes r: "2 powi (- 1022) \<le> r" "r * of_int m < 2 powi 1023"
    and hs: "\<forall>h \<in> set hs. 0 < snd h \<and> snd h \<le> m" and m: "m \<le> 2 ^ 53"
  shows "\<exists>cs. map (\<lambda>h. js_mul (number_of_int (snd h)) (Fin r)) hs = map Fin cs
              \<and> \<bar>sum_list cs - r * of_int (sum_list (map snd hs))\<bar>
                  \<le> r * of_int (sum_list (map snd hs)) / 2 ^ 53"
  using hs
proof (induction hs)
  case Nil
  then show ?case by simp
next
  case (Cons h hs)
  define k where "k = snd h"
  have k: "0 < k" "k \<le> m" using Cons.prems by (simp_all add: k_def)
  define L :: rat where "L = 2 powi (- 1022)"
  define H :: rat where "H = 2 powi 1023"
  have L: "0 < L" unfolding L_def by (rule zero_less_power_int) simp
  have rL: "L \<le> r" and rH: "r * of_int m < H"
    using r by (simp_all only: L_def H_def)
  have rpos: "0 < r" using L rL by linarith
  have k1: "(1::rat) \<le> of_int k" using k(1) by simp
  have km: "(of_int k :: rat) \<le> of_int m" using k(2) by simp
  have "r * 1 \<le> r * of_int k"
    using k1 rpos by (simp only: mult_left_mono less_imp_le)
  then have lo: "L \<le> of_int k * r"
    using rL by (simp add: mult.commute)
  have "r * of_int k \<le> r * of_int m"
    using km rpos by (simp only: mult_left_mono less_imp_le)
  then have hi: "of_int k * r < H"
    using rH by (simp add: mult.commute)
  obtain c where c: "round_to_double (of_int k * r) = Fin c"
    "of_int k * r - of_int k * r / 2 ^ 53 \<le> c" "c \<le> of_int k * r + of_int k * r / 2 ^ 53"
    using round_to_double_pos [OF lo [unfolded L_def] hi [unfolded H_def]] by blast
  have kb: "\<bar>k\<bar> \<le> 2 ^ 53" using k m by simp
  have head: "js_mul (number_of_int (snd h)) (Fin r) = Fin c"
    unfolding k_def [symmetric] number_of_int_def round_to_double_int [OF kb] js_mul.simps
    by (rule c(1))
  obtain cs where cs: "map (\<lambda>h. js_mul (number_of_int (snd h)) (Fin r)) hs = map Fin cs"
    "\<bar>sum_list cs - r * of_int (sum_list (map snd hs))\<bar>
       \<le> r * of_int (sum_list (map snd hs)) / 2 ^ 53"
    using Cons.IH Cons.prems by auto
  define w where "w = r * of_int (sum_list (map snd hs))"
  define v where "v = of_int k * r"
  have sum: "r * of_int (sum_list (map snd (h # hs))) = v + w"
    by (simp add: w_def v_def k_def algebra_simps)
  have "\<bar>sum_list (c # cs) - (v + w)\<bar> \<le> (v + w) / 2 ^ 53"
    using c(2,3) cs(2) unfolding w_def [symmetric] v_def [symmetric] abs_le_iff
    by (simp add: add_divide_distrib)
  then have "\<bar>sum_list (c # cs) - r * of_int (sum_list (map snd (h # hs)))\<bar>
      \<le> r * of_int (sum_list (map snd (h # hs))) / 2 ^ 53"
    unfolding sum .
  moreover have "map (\<lambda>h. js_mul (number_of_int (snd h)) (Fin r)) (h # hs) = map Fin (c # cs)"
    using head cs(1) by simp
  ultimately show ?case by blast
qed

lemma member_le_sum_list_int:
  fixes xs :: "int list"
  assumes "\<forall>x \<in> set xs. 0 < x" and "x \<in> set xs"
  shows "x \<le> sum_list xs"
  using assms
proof (induction xs)
  case Nil
  then show ?case by simp
next
  case (Cons y ys)
  have "0 \<le> sum_list ys"
    by (rule sum_list_nonneg) (use Cons.prems(1) in force)
  then show ?case using Cons by auto
qed

lemma distributeProfit_InrD:
  assumes "fst (distributeProfit c dm st pid ic tr profit a) = Inr d"
  shows "tokenHolders_query st pid \<noteq> []"
    and "newProfit d = profit"
    and "adminShare d = adminShare_of profit"
    and "userTotalShare d = userTotalShare_of profit"
    and "profitPerToken d = profitPerToken_of dm profit (tokenHolders_query st pid)"
    and "userProfits d =
           map (credit_entry dm (profitPerToken_of dm profit (tokenHolders_query st pid)))
             (tokenHolders_query st pid)"
    and "\<exists>hash. addDividenProfit c pid profit (adminShare_of profit) (userTotalShare_of profit)
           (profitPerToken_of dm profit (tokenHolders_query st pid)) = Inr hash"
  using assms
  by (auto simp: distributeProfit_def distributeProfit_try_def Let_def credit_holders_eq
        split: list.splits if_splits sum.splits)

lemma credits_conserved:
  assumes u: "userTotalShare_of (Fin n) = Fin u" "n / 2 \<le> u" "u \<le> n"
    and n: "1 \<le> n" "n \<le> 2 ^ 1000"
    and ne: "hs \<noteq> []" and pos: "\<forall>h \<in> set hs. 0 < snd h"
    and t53': "sum_list (map snd hs) \<le> 2 ^ 53"
  shows "\<exists>cs. map (up_profit_amount \<circ>
                 credit_entry DecimalNumber (profitPerToken_of DecimalNumber (Fin n) hs)) hs
               = map Fin cs
             \<and> length cs = length hs \<and> \<bar>sum_list cs - u\<bar> \<le> u / 2 ^ 51"
proof -
  define t where "t = sum_list (map snd hs)"
  have t53: "t \<le> 2 ^ 53" using t53' by (simp add: t_def)
  have u_pos: "0 < u" using u(2) n(1) by linarith
  obtain h0 hs0 where h0: "hs = h0 # hs0" using ne by (cases hs) auto
  have le_t: "snd h \<le> t" if "h \<in> set hs" for h
    unfolding t_def
    by (rule member_le_sum_list_int) (use pos that in auto)
  have t1: "1 \<le> t"
    using le_t [of h0] pos h0 by force
  have total: "foldl (\<lambda>sum holder. js_add sum (number_of_int (snd holder))) (Fin 0) hs
                 = Fin (of_int t)"
    using total_tokens_exact [OF pos, of 0] t53
    by (simp add: t_def)
  define T :: rat where "T = of_int t"
  have T1: "1 \<le> T" and T53: "T \<le> 2 ^ 53"
    using t1 t53 unfolding T_def
    by (simp, metis of_int_le_iff of_int_numeral of_int_power)
  define L :: rat where "L = 2 powi (- 1022)"
  define H :: rat where "H = 2 powi 1023"
  have LH: "L \<le> 1 / 2 ^ 55" "2 ^ 1002 \<le> H"
    by (simp_all add: L_def H_def)
  have n1000: "n \<le> 2 ^ 1000" by (rule n(2))
  have Tpos: "0 < T" using T1 by simp
  have half: "1 / 2 \<le> u" using u(2) n(1) by linarith
  define qv where "qv = u / T"
  have qT: "qv * T = u" using Tpos by (simp add: qv_def)
  have q54: "1 / 2 ^ 54 \<le> qv"
  proof -
    have "1 / 2 ^ 54 \<le> (1 / 2) / T"
      using T1 T53 by (simp add: field_simps)
    also have "\<dots> \<le> u / T"
      by (rule divide_right_mono [OF half]) (use Tpos in simp)
    finally show ?thesis by (simp only: qv_def)
  qed
  have q_lo: "L \<le> qv"
    using q54 LH(1) by simp
  have q_le: "qv \<le> u"
    using T1 u_pos by (simp add: qv_def field_simps)
  have q_hi: "qv < H"
    using q_le u(3) n1000 LH(2) by simp
  obtain r where r: "round_to_double qv = Fin r"
    "qv - qv / 2 ^ 53 \<le> r" "r \<le> qv + qv / 2 ^ 53"
    using round_to_double_pos [OF q_lo [unfolded L_def] q_hi [unfolded H_def]] by blast
  have ppt: "profitPerToken_of DecimalNumber (Fin n) hs = Fin r"
    using T1 by (simp add: profitPerToken_of_def u(1) total r(1) [unfolded qv_def]
          T_def [symmetric])
  define w where "w = r * T"
  have w_lo: "u - u / 2 ^ 53 \<le> w"
  proof -
    have "(qv - qv / 2 ^ 53) * T \<le> r * T"
      using r(2) Tpos by (simp only: mult_right_mono less_imp_le)
    moreover have "(qv - qv / 2 ^ 53) * T = qv * T - qv * T / 2 ^ 53"
      by (simp add: algebra_simps)
    ultimately show ?thesis by (simp only: w_def qT)
  qed
  have w_hi: "w \<le> u + u / 2 ^ 53"
  proof -
    have "r * T \<le> (qv + qv / 2 ^ 53) * T"
      using r(3) Tpos by (simp only: mult_right_mono less_imp_le)
    moreover have "(qv + qv / 2 ^ 53) * T = qv * T + qv * T / 2 ^ 53"
      by (simp add: algebra_simps)
    ultimately show ?thesis by (simp only: w_def qT)
  qed
  have r_lo: "L \<le> r"
    using r(2) q54 LH(1) by simp
  have r_hi: "r * of_int t < H"
    using w_hi u(3) n1000 LH(2) u_pos unfolding w_def T_def by simp
  have hs_t: "\<forall>h \<in> set hs. 0 < snd h \<and> snd h \<le> t"
    using pos le_t by blast
  obtain cs where cs: "map (\<lambda>h. js_mul (number_of_int (snd h)) (Fin r)) hs = map Fin cs"
    "\<bar>sum_list cs - r * of_int (sum_list (map snd hs))\<bar>
       \<le> r * of_int (sum_list (map snd hs)) / 2 ^ 53"
    using credits_up_to_rounding [OF r_lo [unfolded L_def] r_hi [unfolded H_def] hs_t t53]
    by blast
  have dev: "\<bar>sum_list cs - w\<bar> \<le> w / 2 ^ 53"
    using cs(2) by (simp add: w_def T_def t_def)
  have final: "\<bar>sum_list cs - u\<bar> \<le> u / 2 ^ 51"
    using dev w_lo w_hi u_pos unfolding abs_le_iff by simp
  have credits: "map (up_profit_amount \<circ> credit_entry DecimalNumber
                        (profitPerToken_of DecimalNumber (Fin n) hs)) hs = map Fin cs"
    unfolding ppt using cs(1) by (simp add: credit_entry_def o_def)
  have len: "length cs = length hs"
    using arg_cong [OF cs(1), of length] by simp
  show ?thesis
    using credits len final by blast
qed

lemma int256_numberD:
  assumes "int256_number (Fin x)"
  obtains k :: int where "x = of_int k" and "\<bar>k\<bar> < 2 ^ 53"
proof -
  from assms have x: "x = of_int \<lfloor>x\<rfloor>" and b: "\<bar>x\<bar> \<le> 9007199254740991" by simp_all
  have "\<bar>of_int \<lfloor>x\<rfloor> :: rat\<bar> \<le> of_int 9007199254740991"
    using b x by simp
  then have "\<bar>\<lfloor>x\<rfloor>\<bar> \<le> 9007199254740991"
    unfolding of_int_abs [symmetric] of_int_le_iff .
  then have "\<bar>\<lfloor>x\<rfloor>\<bar> < 2 ^ 53" by simp
  with x show thesis by (rule that)
qed

text \<open>
  Claim C8, as the code has it. The shares are the binary64 products
  \<^verbatim>\<open>newProfit * 0.30\<close> and \<^verbatim>\<open>newProfit * 0.70\<close>. A distribution succeeds only if the
  ledger adapter can pass \<open>newProfit\<close> and both shares on as integers below \<open>2 ^ 53\<close>.
  For a successful distribution of a positive \<open>newProfit\<close> the sum of the shares
  differs from \<open>newProfit\<close> by at most \<open>newProfit / 2 ^ 52\<close>, hence by at most 1, and is
  equal to it when \<open>newProfit < 2 ^ 52\<close>. When the holders' sums are delivered as numbers,
  are positive and add up to at most \<open>2 ^ 53\<close>, the sum of the holders' credits differs
  from \<open>userShare\<close> by at most \<open>userShare / 2 ^ 51\<close> (sums and differences taken
  exactly).
\<close>

theorem split_conservation_up_to_rounding:
  assumes "fst (distributeProfit c dm st pid ic tr (Fin n) a) = Inr d" and "0 < n"
  shows "\<exists>k x u :: int.
           n = of_int k \<and> adminShare d = Fin (of_int x) \<and> userTotalShare d = Fin (of_int u)
           \<and> \<bar>of_int (x + u - k) :: rat\<bar> \<le> n / 2 ^ 52
           \<and> \<bar>x + u - k\<bar> \<le> 1
           \<and> (k < 2 ^ 52 \<longrightarrow> x + u = k)
           \<and> (dm = DecimalNumber \<and> (\<forall>h \<in> set (tokenHolders_query st pid). 0 < snd h)
                \<and> sum_list (map snd (tokenHolders_query st pid)) \<le> 2 ^ 53
              \<longrightarrow> (\<exists>cs. map up_profit_amount (userProfits d) = map Fin cs
                     \<and> length cs = length (tokenHolders_query st pid)
                     \<and> \<bar>sum_list cs - of_int u\<bar> \<le> of_int u / 2 ^ 51))"
proof -
  define hs where "hs = tokenHolders_query st pid"
  note d = distributeProfit_InrD [OF assms(1), folded hs_def]
  obtain hash where "addDividenProfit c pid (Fin n) (adminShare_of (Fin n))
      (userTotalShare_of (Fin n)) (profitPerToken_of dm (Fin n) hs) = Inr hash"
    using d(7) by blast
  note enc = addDividenProfit_InrD [OF this]
  obtain k where k: "n = of_int k" "\<bar>k\<bar> < 2 ^ 53"
    using int256_numberD [OF enc(1)] by blast
  have k1: "1 \<le> k" using assms(2) k(1) by simp
  have n1: "1 \<le> n" using k1 k(1) by simp
  have k53: "k < 2 ^ 53" using k(2) by simp
  have n53: "n < 2 ^ 53"
    unfolding k(1) using k53 by (metis of_int_less_iff of_int_numeral of_int_power)
  have n1000: "n \<le> 2 ^ 1000"
  proof -
    have "(2::rat) ^ 53 \<le> 2 ^ 1000" by (rule power_increasing) simp_all
    with n53 show ?thesis by simp
  qed
  obtain x' u' where xu: "adminShare_of (Fin n) = Fin x'" "userTotalShare_of (Fin n) = Fin u'"
    "\<bar>x' + u' - n\<bar> \<le> n / 2 ^ 52" "n / 2 \<le> u'" "u' \<le> n"
    using shares_up_to_rounding [OF n1 n1000] by blast
  obtain x where x: "x' = of_int x"
    using int256_numberD [OF enc(2) [unfolded xu(1)]] by blast
  obtain u where u: "u' = of_int u"
    using int256_numberD [OF enc(3) [unfolded xu(2)]] by blast
  have bound: "\<bar>of_int (x + u - k) :: rat\<bar> \<le> n / 2 ^ 52"
    using xu(3) by (simp add: x u k(1))
  have "n / 2 ^ 52 < 2" using n53 by simp
  with bound have "\<bar>of_int (x + u - k) :: rat\<bar> < of_int 2" by simp
  then have "\<bar>x + u - k\<bar> < 2"
    unfolding of_int_abs [symmetric] of_int_less_iff .
  then have one: "\<bar>x + u - k\<bar> \<le> 1" by simp
  have exact: "x + u = k" if "k < 2 ^ 52"
  proof -
    have "n < 2 ^ 52"
      unfolding k(1) using that by (metis of_int_less_iff of_int_numeral of_int_power)
    then have "n / 2 ^ 52 < 1" by simp
    with bound have "\<bar>of_int (x + u - k) :: rat\<bar> < of_int 1" by simp
    then have "\<bar>x + u - k\<bar> < 1"
      unfolding of_int_abs [symmetric] of_int_less_iff .
    then show ?thesis by simp
  qed
  have credits: "\<exists>cs. map up_profit_amount (userProfits d) = map Fin cs
        \<and> length cs = length hs \<and> \<bar>sum_list cs - of_int u\<bar> \<le> of_int u / 2 ^ 51"
    if "dm = DecimalNumber" and "\<forall>h \<in> set hs. 0 < snd h"
      and "sum_list (map snd hs) \<le> 2 ^ 53"
    using credits_conserved [OF xu(2,4,5) n1 n1000 d(1) that(2,3)]
    unfolding d(6) that(1) map_map u .
  show ?thesis
    using k(1) d(3,4) xu(1,2) x u bound one exact credits unfolding hs_def by auto
qed

lemma large_rows: "project_rows large_store ''P3'' = [large_project]"
  by (simp add: project_rows_def large_store_def large_project_def)

lemma large_holders: "tokenHolders_query large_store ''P3'' = [(7, 100000000)]"
  by (simp add: tokenHolders_query_def active_tokens_def large_store_def holding_def)

lemma large_ready: "ready (checkReadiness large_store ''P3'')"
  by (simp add: checkReadiness_def isProjectReadyForDistribution_def readiness_try_def
        pool_of_def project_rows_def holder_count_def active_tokens_def large_store_def
        large_project_def holding_def)

lemma large_shares:
  "adminShare_of (Fin 8000000000000004) = Fin 2400000000000001"
  "userTotalShare_of (Fin 8000000000000004) = Fin 5600000000000002"
  unfolding adminShare_of_def userTotalShare_of_def lit_0_30_eq lit_0_70_eq js_mul.simps
  by (subst round_to_double_normal [where e = 51], simp_all add: round_eval,
      subst round_to_double_normal [where e = 52], simp_all add: round_eval)

lemma decimal_digits_last: "n < 10 \<Longrightarrow> decimal_digits n acc = digit_char n # acc"
  by (subst decimal_digits.simps) simp

lemma decimal_digits_more:
  "10 \<le> n \<Longrightarrow>
     decimal_digits n acc = decimal_digits (n div 10) (digit_char (n mod 10) # acc)"
  by (subst decimal_digits.simps) (simp add: div_eq_0_iff)

lemma large_shown: "string_of_int 100000000 = ''100000000''"
  by (simp add: string_of_int_def decimal_digits_last decimal_digits_more digit_char_def)

lemma large_parsed:
  "unsigned_value ''0100000000'' = Some 100000000"
  "unsigned_value ''100000000'' = Some 100000000"
  by (simp_all add: unsigned_value_def)

lemma large_total:
  "totalUserTokens_of DecimalNumber [(u1, 100000000)] = JNum (Fin 100000000)"
  "totalUserTokens_of DecimalString [(u1, 100000000)] = JStr ''0100000000''"
  by (simp_all add: number_of_int_def round_to_double_numeral large_shown)

lemma large_ppt:
  "profitPerToken_of dm (Fin 8000000000000004) [(u1, 100000000)]
     = Fin (7516192768000003 / 134217728)"
  unfolding profitPerToken_of_def large_shares
  by (cases dm; simp only: large_total; simp add: large_parsed round_to_double_numeral;
      subst round_to_double_normal [where e = 25]; simp add: round_eval)

lemma large_product:
  "round_to_double (100000000 * (7516192768000003 / 134217728)) = Fin 5600000000000002"
  by (subst round_to_double_normal [where e = 52], simp_all add: round_eval)

lemma large_delivered:
  "deliver DecimalNumber 100000000 = JNum (Fin 100000000)"
  "deliver DecimalString 100000000 = JStr ''100000000''"
  by (simp_all add: number_of_int_def round_to_double_numeral large_shown)

lemma large_read: "to_number (deliver dm 100000000) = Fin 100000000"
  by (cases dm; simp only: large_delivered)
     (simp_all add: large_parsed round_to_double_numeral)

lemma large_credit:
  "js_mul (to_number (deliver dm 100000000)) (Fin (7516192768000003 / 134217728))
     = Fin 5600000000000002"
  unfolding large_read js_mul.simps by (rule large_product)

lemma large_scaled:
  "Math_floor (js_mul (Fin (7516192768000003 / 134217728)) (Fin 100000000))
     = Fin 5600000000000002"
  unfolding js_mul.simps mult.commute [of "7516192768000003 / 134217728 :: rat"] large_product
  by simp

lemma large_encodable:
  "int256_number (Fin 8000000000000004)" "int256_number (Fin 2400000000000001)"
  "int256_number (Fin 5600000000000002)"
  by simp_all

lemma large_ledger:
  "addDividenProfit accepting_contract pid (Fin 8000000000000004)
     (adminShare_of (Fin 8000000000000004)) (userTotalShare_of (Fin 8000000000000004))
     (profitPerToken_of dm (Fin 8000000000000004) [(u1, 100000000)])
   = Inr ''0xd1f1de''"
  unfolding large_shares large_ppt
  by (rule accepting_ledger; simp only: large_scaled large_encodable)

lemma large_distribution:
  "fst (distributeProfit accepting_contract dm large_store ''P3'' ic tr
          (Fin 8000000000000004) a) =
     Inr \<lparr>projectId = ''P3'', initialCapital = ic, totalRevenue = tr,
          newProfit = Fin 8000000000000004, adminShare = Fin 2400000000000001,
          userTotalShare = Fin 5600000000000002,
          profitPerToken = Fin (7516192768000003 / 134217728),
          totalUserTokens = totalUserTokens_of dm [(7, 100000000)],
          userProfits =
            [\<lparr>up_user_id = 7, up_token_amount = deliver dm 100000000,
              up_profit_amount = Fin 5600000000000002\<rparr>],
          blockchainHash = ''0xd1f1de'', projectStatus = Completed\<rparr>"
proof -
  have p: "status large_project \<noteq> Completed" "\<not> 0 < available_tokens large_project"
    by (simp_all add: large_project_def)
  have ne: "tokenHolders_query large_store ''P3'' \<noteq> []"
    unfolding large_holders by simp
  have ledger: "addDividenProfit accepting_contract ''P3'' (Fin 8000000000000004)
      (adminShare_of (Fin 8000000000000004)) (userTotalShare_of (Fin 8000000000000004))
      (profitPerToken_of dm (Fin 8000000000000004) (tokenHolders_query large_store ''P3''))
    = Inr ''0xd1f1de''"
    unfolding large_holders by (rule large_ledger)
  show ?thesis
    unfolding distributeProfit_ledger_ok(1) [OF large_rows p ne ledger] large_holders
      large_shares large_ppt list.map credit_entry_def fst_conv snd_conv large_credit
    by (rule refl)
qed

theorem split_conservation_up_to_rounding_witness:
  "fst (distributeProfit accepting_contract DecimalNumber sold_out_store ''P1'' (Fin 1000)
          (Fin 51000) (Fin 50000) 1) =
     Inr \<lparr>projectId = ''P1'', initialCapital = Fin 1000, totalRevenue = Fin 51000,
          newProfit = Fin 50000, adminShare = Fin 15000, userTotalShare = Fin 35000,
          profitPerToken = Fin 350, totalUserTokens = JNum (Fin 100),
          userProfits =
            [\<lparr>up_user_id = 7, up_token_amount = JNum (Fin 60),
              up_profit_amount = Fin 21000\<rparr>,
             \<lparr>up_user_id = 8, up_token_amount = JNum (Fin 40),
              up_profit_amount = Fin 14000\<rparr>],
          blockchainHash = ''0xd1f1de'', projectStatus = Completed\<rparr>
   \<and> (0::rat) < 50000 \<and> (50000::int) < 2 ^ 52
   \<and> tokenHolders_query sold_out_store ''P1'' = [(7, 60), (8, 40)]
   \<and> (15000::int) + 35000 = 50000
   \<and> \<bar>21000 + 14000 - 35000 :: rat\<bar> \<le> 35000 / 2 ^ 51"
proof -
  have p: "status sold_out_project \<noteq> Completed" "\<not> 0 < available_tokens sold_out_project"
    by (simp_all add: sold_out_project_def)
  note run = scenario_distribution(1) [OF sold_out_rows p sold_out_holders,
      where ic = "Fin 1000" and tr = "Fin 51000" and a = 1]
  have pos: "(0::rat) < 50000" by simp
  show ?thesis
    using split_conservation_up_to_rounding [OF run pos]
    unfolding run by (simp add: sold_out_holders)
qed

text \<open>
  Claim C8 as stated says that \<open>adminShare + userShare = newProfit\<close> with no rounding
  loss. On the ready, sold-out project of 100000000 tokens with one holder, a distribution
  of \<open>newProfit = 8000000000000004\<close> that the ledger accepts succeeds, however the sums
  are delivered, with \<open>adminShare = 2400000000000001\<close> and
  \<open>userShare = 5600000000000002\<close>: the shares add up to 8000000000000003, in
  JavaScript and exactly.
\<close>

theorem split_conservation_counterexample:
  "\<not> js_le (Fin 8000000000000004) (Fin 0)
   \<and> ready (checkReadiness large_store ''P3'')
   \<and> fst (distributeProfit accepting_contract DecimalString large_store ''P3''
            (Fin 1000000000) (Fin 8000001000000004) (Fin 8000000000000004) 1) =
       Inr \<lparr>projectId = ''P3'', initialCapital = Fin 1000000000,
            totalRevenue = Fin 8000001000000004,
            newProfit = Fin 8000000000000004, adminShare = Fin 2400000000000001,
            userTotalShare = Fin 5600000000000002,
            profitPerToken = Fin (7516192768000003 / 134217728),
            totalUserTokens = JStr ''0100000000'',
            userProfits =
              [\<lparr>up_user_id = 7, up_token_amount = JStr ''100000000'',
                up_profit_amount = Fin 5600000000000002\<rparr>],
            blockchainHash = ''0xd1f1de'', projectStatus = Completed\<rparr>
   \<and> fst (distributeProfit accepting_contract DecimalNumber large_store ''P3''
            (Fin 1000000000) (Fin 8000001000000004) (Fin 8000000000000004) 1) =
       Inr \<lparr>projectId = ''P3'', initialCapital = Fin 1000000000,
            totalRevenue = Fin 8000001000000004,
            newProfit = Fin 8000000000000004, adminShare = Fin 2400000000000001,
            userTotalShare = Fin 5600000000000002,
            profitPerToken = Fin (7516192768000003 / 134217728),
            totalUserTokens = JNum (Fin 100000000),
            userProfits =
              [\<lparr>up_user_id = 7, up_token_amount = JNum (Fin 100000000),
                up_profit_amount = Fin 5600000000000002\<rparr>],
            blockchainHash = ''0xd1f1de'', projectStatus = Completed\<rparr>
   \<and> js_add (Fin 2400000000000001) (Fin 5600000000000002) = Fin 8000000000000003
   \<and> js_add (Fin 2400000000000001) (Fin 5600000000000002) \<noteq> Fin 8000000000000004
   \<and> (2400000000000001 + 5600000000000002 :: rat) \<noteq> 8000000000000004"
proof -
  have sum: "js_add (Fin 2400000000000001) (Fin 5600000000000002) = Fin 8000000000000003"
    by (simp add: round_to_double_numeral)
  show ?thesis
    unfolding large_distribution large_total large_delivered sum
    by (simp add: large_ready)
qed

end
